theory Spec2Isabelle
  imports Main
begin

section \<open>Data model (src/lib/data.ts)\<close>

text \<open>
  Only the fields that the verified functions read are kept. An optional TypeScript field
  (\<^verbatim>\<open>circleId?: string\<close>, \<^verbatim>\<open>isPremium?: boolean\<close>) is an \<open>option\<close>: \<open>None\<close> is
  \<^verbatim>\<open>undefined\<close>. Strings are restricted to ASCII.
\<close>

datatype invite_status = InvPending | InvAccepted | InvDeclined

record Invite =
  inv_id :: string
  inv_fromUserId :: string
  inv_toEmail :: "string option"
  inv_toUserId :: "string option"
  inv_circleId :: "string option"
  inv_status :: invite_status

datatype reveal_status = RevPending | RevAccepted | RevDeclined

record RevealRequest =
  rev_id :: string
  rev_fromUserId :: string
  rev_toUserId :: string
  rev_ratingId :: string
  rev_status :: reveal_status

datatype goal_status = GoalPending | GoalActive | GoalDeclined | GoalCompleted

record FamilyGoal =
  goal_id :: string
  goal_fromUserId :: string
  goal_toUserId :: string
  goal_trait :: string
  goal_status :: goal_status

record User =
  user_id :: string
  user_displayName :: string
  user_isPremium :: "bool option"

datatype circle_name = Friends | Family | Work | General

record Circle =
  circle_id :: string
  circle_ownerId :: string
  circle_name :: circle_name
  circle_memberIds :: "string list"

subsection \<open>JavaScript truthiness\<close>

text \<open>
  \<^verbatim>\<open>!!x\<close> and \<^verbatim>\<open>x ? a : b\<close> and \<^verbatim>\<open>x || y\<close> test truthiness: \<^verbatim>\<open>undefined\<close>,
  \<^verbatim>\<open>null\<close>, \<^verbatim>\<open>false\<close> and the empty string are falsy.
\<close>

definition truthy_string :: "string option \<Rightarrow> bool" where
  "truthy_string x = (case x of None \<Rightarrow> False | Some s \<Rightarrow> s \<noteq> [])"

definition truthy_bool :: "bool option \<Rightarrow> bool" where
  "truthy_bool x = (case x of None \<Rightarrow> False | Some b \<Rightarrow> b)"

section \<open>Notification aggregator (the layout's \<^verbatim>\<open>fetchNotifications\<close>)\<close>

text \<open>
  The data-access reads are asynchronous calls that resolve with a list or reject. Their
  bodies are not part of the verified layout file, so the aggregator takes them as a record
  of functions from the user id to an outcome (\<open>Inl\<close> is a rejected promise).
\<close>

datatype store_error = StoreError string

record data_access =
  getReceivedInvitesForUser :: "string \<Rightarrow> store_error + Invite list"
  getRevealRequestsForUser :: "string \<Rightarrow> store_error + RevealRequest list"
  getFamilyGoalsForUser :: "string \<Rightarrow> store_error + FamilyGoal list"

datatype fetch_call = CallReceivedInvites string | CallRevealRequests string | CallFamilyGoals string

text \<open>
  \<^verbatim>\<open>Promise.all([p1, p2, p3])\<close> resolves with the three values when all three resolve and
  rejects as soon as one rejects. Which rejection wins when several reject depends on timing;
  the model reports the first one in array order.
\<close>

definition promise_all3 :: "'e + 'a \<Rightarrow> 'e + 'b \<Rightarrow> 'e + 'c \<Rightarrow> 'e + ('a \<times> 'b \<times> 'c)" where
  "promise_all3 p1 p2 p3 =
     (case p1 of Inl e \<Rightarrow> Inl e
      | Inr a \<Rightarrow> (case p2 of Inl e \<Rightarrow> Inl e
         | Inr b \<Rightarrow> (case p3 of Inl e \<Rightarrow> Inl e
            | Inr c \<Rightarrow> Inr (a, b, c))))"

text \<open>The three \<^verbatim>\<open>useState(0)\<close> cells of the layout.\<close>

record badge_state =
  inviteCount :: nat
  revealRequestCount :: nat
  goalSuggestionCount :: nat

definition initial_badges :: badge_state where
  "initial_badges = \<lparr>inviteCount = 0, revealRequestCount = 0, goalSuggestionCount = 0\<rparr>"

text \<open>
  One run of \<^verbatim>\<open>fetchNotifications\<close>. The result is the list of data-access calls that
  were issued, in order, and the outcome of the async function: \<open>Inl e\<close> when the awaited
  \<^verbatim>\<open>Promise.all\<close> rejected (the three setters are then never reached), \<open>Inr st'\<close> with the
  state after the three setters otherwise.
\<close>

definition fetchNotifications ::
  "data_access \<Rightarrow> User \<Rightarrow> badge_state \<Rightarrow> fetch_call list \<times> (store_error + badge_state)" where
  "fetchNotifications da user st =
     (let p1 = getReceivedInvitesForUser da (user_id user);
          p2 = (if truthy_bool (user_isPremium user)
                then getRevealRequestsForUser da (user_id user) else Inr []);
          p3 = getFamilyGoalsForUser da (user_id user);
          calls = [CallReceivedInvites (user_id user)]
                  @ (if truthy_bool (user_isPremium user)
                     then [CallRevealRequests (user_id user)] else [])
                  @ [CallFamilyGoals (user_id user)]
      in (calls,
          case promise_all3 p1 p2 p3 of
            Inl e \<Rightarrow> Inl e
          | Inr (receivedInvites, revealRequests, familyGoals) \<Rightarrow>
              (let actionableInvites =
                     filter (\<lambda>invite. truthy_string (inv_circleId invite)
                                      \<and> inv_status invite = InvPending) receivedInvites
               in Inr (st\<lparr>inviteCount := length actionableInvites,
                          revealRequestCount := length revealRequests,
                          goalSuggestionCount := length familyGoals\<rparr>))))"

text \<open>
  The effect body: nothing happens without a signed-in user; otherwise the aggregator runs
  and a rejected run leaves the three cells as they were.
\<close>

definition notification_effect :: "data_access \<Rightarrow> User option \<Rightarrow> badge_state \<Rightarrow> badge_state" where
  "notification_effect da user st =
     (case user of None \<Rightarrow> st
      | Some u \<Rightarrow> (case snd (fetchNotifications da u st) of Inl e \<Rightarrow> st | Inr st' \<Rightarrow> st'))"

text \<open>
  Modelled from the spec: \<^verbatim>\<open>getFamilyGoalsForUser\<close> is not in the available part of
  src/lib/data.ts. The spec describes the read as the family-goal suggestions directed at
  the user, counted as pending goal suggestions; the model selects from the
  \<^verbatim>\<open>familyGoals\<close> collection the goals addressed to the user that are still pending.
\<close>

definition getFamilyGoalsForUser_spec :: "FamilyGoal list \<Rightarrow> string \<Rightarrow> store_error + FamilyGoal list" where
  "getFamilyGoalsForUser_spec familyGoals userId =
     Inr (filter (\<lambda>g. goal_toUserId g = userId \<and> goal_status g = GoalPending) familyGoals)"

section \<open>The document store (Firestore) as used by src/lib/data.ts\<close>

text \<open>
  A document is a finite map from field names to values, a reference is a collection name
  with a document id, and the database maps references to documents. Field values are the
  scalars and arrays that the verified writes use; map-valued fields are not modelled.
  \<open>VServerTimestamp\<close> is the \<^verbatim>\<open>serverTimestamp()\<close> sentinel, which the server replaces by
  its clock when the write is applied.
\<close>

datatype fs_value =
    VString string
  | VBool bool
  | VNumber int
  | VNull
  | VArray "fs_value list"
  | VServerTimestamp
  | VTimestamp nat

type_synonym document = "string \<rightharpoonup> fs_value"

datatype doc_ref = DocRef string string

type_synonym firestore = "doc_ref \<rightharpoonup> document"

text \<open>
  \<^verbatim>\<open>batch.set(ref, data)\<close>, \<^verbatim>\<open>batch.set(ref, data, { merge: true })\<close> and
  \<^verbatim>\<open>batch.update(ref, data)\<close> only stage a write; the batch is the list of staged writes.
\<close>

datatype write_op =
    SetOp doc_ref document bool
  | UpdateOp doc_ref document

type_synonym write_batch = "write_op list"

definition resolve_sentinels :: "nat \<Rightarrow> document \<Rightarrow> document" where
  "resolve_sentinels now d =
     (\<lambda>k. case d k of Some VServerTimestamp \<Rightarrow> Some (VTimestamp now) | v \<Rightarrow> v)"

text \<open>
  A plain set replaces the document; a set with merge keeps every stored field that the
  data does not mention and creates the document when it is missing; an update needs the
  document to exist and otherwise fails.
\<close>

fun apply_write :: "nat \<Rightarrow> firestore \<Rightarrow> write_op \<Rightarrow> firestore option" where
  "apply_write now db (SetOp r d False) = Some (db(r \<mapsto> resolve_sentinels now d))"
| "apply_write now db (SetOp r d True) =
     Some (db(r \<mapsto> (case db r of None \<Rightarrow> resolve_sentinels now d
                              | Some old \<Rightarrow> old ++ resolve_sentinels now d)))"
| "apply_write now db (UpdateOp r d) =
     (case db r of None \<Rightarrow> None
      | Some old \<Rightarrow> Some (db(r \<mapsto> old ++ resolve_sentinels now d)))"

fun apply_batch :: "nat \<Rightarrow> firestore \<Rightarrow> write_batch \<Rightarrow> firestore option" where
  "apply_batch now db [] = Some db"
| "apply_batch now db (w # ws) =
     (case apply_write now db w of None \<Rightarrow> None | Some db' \<Rightarrow> apply_batch now db' ws)"

text \<open>
  \<^verbatim>\<open>batch.commit()\<close> is all-or-nothing: it rejects on a network failure (the first
  argument) or when one staged write cannot be applied, and then the database is unchanged.
\<close>

definition batch_commit ::
  "store_error option \<Rightarrow> nat \<Rightarrow> write_batch \<Rightarrow> firestore \<Rightarrow> (store_error + unit) \<times> firestore" where
  "batch_commit failure now batch db =
     (case failure of Some e \<Rightarrow> (Inl e, db)
      | None \<Rightarrow> (case apply_batch now db batch of
                   None \<Rightarrow> (Inl (StoreError ''not-found''), db)
                 | Some db' \<Rightarrow> (Inr (), db')))"

subsection \<open>JavaScript string operations used by the signup glue\<close>

definition js_or :: "string option \<Rightarrow> string \<Rightarrow> string" where
  "js_or a b = (case a of None \<Rightarrow> b | Some s \<Rightarrow> if s \<noteq> [] then s else b)"

definition template_part :: "string option \<Rightarrow> string" where
  "template_part x = (case x of None \<Rightarrow> ''undefined'' | Some s \<Rightarrow> s)"

definition is_js_space :: "char \<Rightarrow> bool" where
  "is_js_space c = (c \<in> set [CHR '' '', CHR 0x09, CHR 0x0A, CHR 0x0B, CHR 0x0C, CHR 0x0D])"

definition js_trim :: "string \<Rightarrow> string" where
  "js_trim s = rev (dropWhile is_js_space (rev (dropWhile is_js_space s)))"

fun js_split :: "char \<Rightarrow> string \<Rightarrow> string list" where
  "js_split c [] = [[]]"
| "js_split c (x # xs) =
     (if x = c then [] # js_split c xs
      else (case js_split c xs of [] \<Rightarrow> [[x]] | y # ys \<Rightarrow> (x # y) # ys))"

fun js_join :: "string \<Rightarrow> string list \<Rightarrow> string" where
  "js_join sep [] = []"
| "js_join sep [x] = x"
| "js_join sep (x # y # ys) = x @ sep @ js_join sep (y # ys)"

definition js_toLowerCase_char :: "char \<Rightarrow> char" where
  "js_toLowerCase_char c =
     (let n = (of_char c :: nat) in if 65 \<le> n \<and> n \<le> 90 then char_of (n + 32) else c)"

definition js_toLowerCase :: "string \<Rightarrow> string" where
  "js_toLowerCase s = map js_toLowerCase_char s"

definition js_charAt0 :: "string \<Rightarrow> string" where
  "js_charAt0 s = take 1 s"


section \<open>User provisioning (\<^verbatim>\<open>createNewUserData\<close> in src/lib/data.ts)\<close>

text \<open>The fields of the Firebase Auth user that the function reads; \<open>None\<close> is \<^verbatim>\<open>null\<close>.\<close>

record FirebaseUser =
  uid :: string
  fb_displayName :: "string option"
  fb_email :: "string option"
  fb_photoURL :: "string option"

record additional_data =
  ad_firstName :: "string option"
  ad_lastName :: "string option"

text \<open>
  What the function takes from its surroundings: the \<^verbatim>\<open>defaultCircles\<close> constant and the
  helper \<^verbatim>\<open>processInvitesForNewUser\<close> (both outside the available part of the file), the
  ids that \<^verbatim>\<open>doc(circlesCol)\<close> generates (the i-th call returns \<open>newDocId i\<close>), whether the
  commit fails on the network, and the server clock. The helper is awaited with the batch,
  the new id and the e-mail; it may read and write the database directly, may stage writes
  in the batch, and may reject.
\<close>

record provisioning_env =
  defaultCircles :: "document list"
  newDocId :: "nat \<Rightarrow> string"
  processInvitesForNewUser ::
    "write_batch \<Rightarrow> string \<Rightarrow> string \<Rightarrow> firestore \<Rightarrow> (store_error + write_batch) \<times> firestore"
  commit_failure :: "store_error option"
  server_time :: nat

definition newUser_displayName :: "FirebaseUser \<Rightarrow> additional_data \<Rightarrow> string" where
  "newUser_displayName fbUser additionalData =
     js_or (fb_displayName fbUser)
       (js_trim (template_part (ad_firstName additionalData) @ '' ''
                 @ template_part (ad_lastName additionalData)))"

definition displayName_first :: "FirebaseUser \<Rightarrow> string option" where
  "displayName_first fbUser =
     (case fb_displayName fbUser of None \<Rightarrow> None
      | Some s \<Rightarrow> (case js_split CHR '' '' s of [] \<Rightarrow> None | x # xs \<Rightarrow> Some x))"

definition displayName_rest :: "FirebaseUser \<Rightarrow> string option" where
  "displayName_rest fbUser =
     (case fb_displayName fbUser of None \<Rightarrow> None
      | Some s \<Rightarrow> Some (js_join '' '' (drop 1 (js_split CHR '' '' s))))"

definition newUser :: "FirebaseUser \<Rightarrow> additional_data \<Rightarrow> (string \<times> fs_value) list" where
  "newUser fbUser additionalData =
     (let displayName = newUser_displayName fbUser additionalData in
      [(''displayName'', VString displayName),
       (''firstName'', VString (js_or (ad_firstName additionalData)
                                  (js_or (displayName_first fbUser) []))),
       (''lastName'', VString (js_or (ad_lastName additionalData)
                                 (js_or (displayName_rest fbUser) []))),
       (''displayName_lowercase'', VString (js_toLowerCase displayName)),
       (''email'', VString (js_or (fb_email fbUser) [])),
       (''photoUrl'', VString (js_or (fb_photoURL fbUser)
                                 (''https://placehold.co/100x100.png?text='' @ js_charAt0 displayName))),
       (''createdAt'', VServerTimestamp),
       (''isPremium'', VBool False),
       (''revealTokens'', VNumber 0)])"

definition userDocRef :: "FirebaseUser \<Rightarrow> doc_ref" where
  "userDocRef fbUser = DocRef ''users'' (uid fbUser)"

definition dataWithOwner :: "FirebaseUser \<Rightarrow> document \<Rightarrow> document" where
  "dataWithOwner fbUser circleData =
     circleData ++ [''ownerId'' \<mapsto> VString (uid fbUser),
                    ''memberIds'' \<mapsto> VArray [VString (uid fbUser)]]"

text \<open>Steps 1 and 2: the batch after the user document and the circles have been staged.\<close>

definition staged_writes :: "provisioning_env \<Rightarrow> FirebaseUser \<Rightarrow> additional_data \<Rightarrow> write_batch" where
  "staged_writes env fbUser additionalData =
     SetOp (userDocRef fbUser) (map_of (newUser fbUser additionalData)) True
     # map (\<lambda>(i, circleData). SetOp (DocRef ''circles'' (newDocId env i))
                                     (dataWithOwner fbUser circleData) False)
           (enumerate 0 (defaultCircles env))"

text \<open>
  Steps 3 and 4. A rejection of the awaited helper leaves the function before
  \<^verbatim>\<open>batch.commit()\<close> is reached; there is no \<^verbatim>\<open>try\<close> around it.
\<close>

definition createNewUserData ::
  "provisioning_env \<Rightarrow> FirebaseUser \<Rightarrow> additional_data \<Rightarrow> firestore \<Rightarrow> (store_error + unit) \<times> firestore" where
  "createNewUserData env fbUser additionalData db =
     (let batch = staged_writes env fbUser additionalData;
          (processed, db1) =
             (case fb_email fbUser of
                None \<Rightarrow> (Inr batch, db)
              | Some email \<Rightarrow>
                  if email \<noteq> [] then processInvitesForNewUser env batch (uid fbUser) email db
                  else (Inr batch, db))
      in case processed of
           Inl e \<Rightarrow> (Inl e, db1)
         | Inr batch' \<Rightarrow> batch_commit (commit_failure env) (server_time env) batch' db1)"

text \<open>
  Modelled from the spec: the \<^verbatim>\<open>defaultCircles\<close> constant is not in the available part of
  src/lib/data.ts. The spec names four fixed circle kinds (Friends, Family, Work, General)
  and four default circles for a fresh identity; each entry carries the kind as its name.
\<close>

definition defaultCircles_spec :: "document list" where
  "defaultCircles_spec =
     [[''name'' \<mapsto> VString ''Friends''],
      [''name'' \<mapsto> VString ''Family''],
      [''name'' \<mapsto> VString ''Work''],
      [''name'' \<mapsto> VString ''General'']]"

section \<open>Circle detail page (src/app/circles/[id]/page.tsx)\<close>

subsection \<open>\<^verbatim>\<open>GoalDialog\<close>\<close>

text \<open>
  \<open>isOpen\<close> is the parent's state, changed through the \<^verbatim>\<open>setIsOpen\<close> prop; the other two
  are the dialog's own \<^verbatim>\<open>useState\<close> cells.
\<close>

record goal_dialog =
  isOpen :: bool
  selectedTrait :: string
  isSubmitting :: bool

definition setSelectedTrait :: "string \<Rightarrow> goal_dialog \<Rightarrow> goal_dialog" where
  "setSelectedTrait t d = d\<lparr>selectedTrait := t\<rparr>"

text \<open>
  \<^verbatim>\<open>handleSend\<close> with the \<^verbatim>\<open>onSend\<close> prop as a function on the outside world \<open>'w\<close>. The
  result lists the traits \<^verbatim>\<open>onSend\<close> was called with. When the awaited \<^verbatim>\<open>onSend\<close>
  rejects, the two setters after it are not reached.
\<close>

definition handleSend ::
  "(string \<Rightarrow> 'w \<Rightarrow> (store_error + unit) \<times> 'w) \<Rightarrow> goal_dialog \<Rightarrow> 'w
     \<Rightarrow> string list \<times> (store_error + unit) \<times> goal_dialog \<times> 'w" where
  "handleSend onSend d w =
     (if selectedTrait d = [] then ([], Inr (), d, w)
      else (let d1 = d\<lparr>isSubmitting := True\<rparr>;
                (r, w') = onSend (selectedTrait d) w
            in case r of
                 Inl e \<Rightarrow> ([selectedTrait d], Inl e, d1, w')
               | Inr u \<Rightarrow> ([selectedTrait d], Inr (),
                           d1\<lparr>isSubmitting := False, isOpen := False\<rparr>, w')))"

text \<open>
  Modelled from the spec: the page's \<^verbatim>\<open>onSend\<close> handler and \<^verbatim>\<open>sendFamilyGoal\<close> are not in
  the available source. The spec says that confirming the dialog writes a pending
  FamilyGoal and that after the send a document with status pending and the chosen trait
  exists. The outside world is the \<^verbatim>\<open>familyGoals\<close> collection.
\<close>

definition sendFamilyGoal_spec ::
  "string \<Rightarrow> string \<Rightarrow> string \<Rightarrow> string \<Rightarrow> FamilyGoal list \<Rightarrow> (store_error + unit) \<times> FamilyGoal list" where
  "sendFamilyGoal_spec newId fromUserId toUserId trait goals =
     (Inr (), goals @ [\<lparr>goal_id = newId, goal_fromUserId = fromUserId, goal_toUserId = toUserId,
                         goal_trait = trait, goal_status = GoalPending\<rparr>])"

subsection \<open>\<^verbatim>\<open>MemberListItem\<close>\<close>

text \<open>
  The controls of one member row, in document order, each with what it does when
  activated. \<open>RatedText\<close> is the passive "Rated ... ago" note.
\<close>

datatype control =
    RatedText
  | RateLink string string
  | SuggestGoalButton User
  | RemoveButton User

datatype action = Navigate string | OnSuggestGoal User | OnRemove User

fun activate :: "control \<Rightarrow> action option" where
  "activate RatedText = None"
| "activate (RateLink label href) = Some (Navigate href)"
| "activate (SuggestGoalButton m) = Some (OnSuggestGoal m)"
| "activate (RemoveButton m) = Some (OnRemove m)"

text \<open>
  \<open>currentUser\<close> is what the \<^verbatim>\<open>useUser\<close> hook returns (\<open>None\<close> while there is no user);
  \<open>lastRatedAt\<close> is a timestamp or \<^verbatim>\<open>null\<close>.
\<close>

definition MemberListItem ::
  "User \<Rightarrow> Circle \<Rightarrow> string \<Rightarrow> User option \<Rightarrow> nat option \<Rightarrow> control list" where
  "MemberListItem member circle currentUserId currentUser lastRatedAt =
     (let isCurrentUser = (user_id member = currentUserId);
          isCircleOwner = (circle_ownerId circle = currentUserId)
      in if isCurrentUser then []
         else (if lastRatedAt \<noteq> None \<and> circle_name circle \<noteq> Family then [RatedText] else [])
            @ (if circle_name circle \<noteq> Family
               then [RateLink (if lastRatedAt \<noteq> None then ''Re-rate'' else ''Rate'')
                              (''/evaluate/'' @ circle_id circle @ ''/'' @ user_id member)]
               else [])
            @ (if circle_name circle = Family
                  \<and> (case currentUser of None \<Rightarrow> False | Some u \<Rightarrow> truthy_bool (user_isPremium u))
               then [SuggestGoalButton member] else [])
            @ (if isCircleOwner then [RemoveButton member] else []))"

section \<open>Auxiliary notions for the statements\<close>

text \<open>The document a staged write is aimed at, and whether it is a set.\<close>

fun op_ref :: "write_op \<Rightarrow> doc_ref" where
  "op_ref (SetOp r d m) = r"
| "op_ref (UpdateOp r d) = r"

fun is_set_op :: "write_op \<Rightarrow> bool" where
  "is_set_op (SetOp r d m) = True"
| "is_set_op (UpdateOp r d) = False"

subsection \<open>Concrete data for the examples\<close>

definition ex_invite :: "string \<Rightarrow> string option \<Rightarrow> invite_status \<Rightarrow> Invite" where
  "ex_invite i c s = \<lparr>inv_id = i, inv_fromUserId = ''q'', inv_toEmail = None,
                      inv_toUserId = Some ''p'', inv_circleId = c, inv_status = s\<rparr>"

definition ex_reveal :: "string \<Rightarrow> RevealRequest" where
  "ex_reveal i = \<lparr>rev_id = i, rev_fromUserId = ''q'', rev_toUserId = ''p'',
                  rev_ratingId = ''r'', rev_status = RevPending\<rparr>"

definition ex_goal :: "string \<Rightarrow> string \<Rightarrow> goal_status \<Rightarrow> FamilyGoal" where
  "ex_goal i to s = \<lparr>goal_id = i, goal_fromUserId = ''q'', goal_toUserId = to,
                     goal_trait = ''Patience'', goal_status = s\<rparr>"

definition ex_familyGoals :: "FamilyGoal list" where
  "ex_familyGoals = [ex_goal ''g1'' ''p'' GoalPending, ex_goal ''g2'' ''p'' GoalActive,
                     ex_goal ''g3'' ''z'' GoalPending]"

text \<open>
  The end-to-end example of the specification: three pending invites, two of them with a
  circleId, two pending reveal requests and one pending goal for user \<open>p\<close>.
\<close>

definition ex_data_access :: data_access where
  "ex_data_access =
     \<lparr>getReceivedInvitesForUser = (\<lambda>u. Inr [ex_invite ''i1'' (Some ''c1'') InvPending,
                                             ex_invite ''i2'' None InvPending,
                                             ex_invite ''i3'' (Some ''c2'') InvPending]),
      getRevealRequestsForUser = (\<lambda>u. Inr [ex_reveal ''r1'', ex_reveal ''r2'']),
      getFamilyGoalsForUser = getFamilyGoalsForUser_spec ex_familyGoals\<rparr>"

text \<open>A store whose family-goal read rejects.\<close>

definition ex_data_access_goals_down :: data_access where
  "ex_data_access_goals_down =
     \<lparr>getReceivedInvitesForUser = (\<lambda>u. Inr [ex_invite ''i1'' (Some ''c1'') InvPending]),
      getRevealRequestsForUser = (\<lambda>u. Inr [ex_reveal ''r1'']),
      getFamilyGoalsForUser = (\<lambda>u. Inl (StoreError ''unavailable''))\<rparr>"

definition ex_premium_user :: User where
  "ex_premium_user = \<lparr>user_id = ''p'', user_displayName = ''P'', user_isPremium = Some True\<rparr>"

definition ex_free_user :: User where
  "ex_free_user = \<lparr>user_id = ''p'', user_displayName = ''P'', user_isPremium = None\<rparr>"

definition ex_previous_badges :: badge_state where
  "ex_previous_badges = \<lparr>inviteCount = 5, revealRequestCount = 6, goalSuggestionCount = 7\<rparr>"

definition ex_fbUser :: FirebaseUser where
  "ex_fbUser = \<lparr>uid = ''u1'', fb_displayName = Some ''Ada Lovelace'',
                fb_email = Some ''a@x.com'', fb_photoURL = None\<rparr>"

definition ex_fbUser_no_email :: FirebaseUser where
  "ex_fbUser_no_email = \<lparr>uid = ''u1'', fb_displayName = Some ''Ada Lovelace'',
                         fb_email = None, fb_photoURL = None\<rparr>"

definition ex_additional :: additional_data where
  "ex_additional = \<lparr>ad_firstName = None, ad_lastName = None\<rparr>"

text \<open>
  Two instances of the invite-processing helper for the examples: one that stages, in the
  batch it was given, an update of invite \<open>inv1\<close> to the new user id, and one that rejects.
\<close>

definition ex_stage_invite_update ::
  "write_batch \<Rightarrow> string \<Rightarrow> string \<Rightarrow> firestore \<Rightarrow> (store_error + write_batch) \<times> firestore" where
  "ex_stage_invite_update batch userId email db =
     (Inr (batch @ [UpdateOp (DocRef ''invites'' ''inv1'') [''toUserId'' \<mapsto> VString userId]]), db)"

definition ex_invites_unavailable ::
  "write_batch \<Rightarrow> string \<Rightarrow> string \<Rightarrow> firestore \<Rightarrow> (store_error + write_batch) \<times> firestore" where
  "ex_invites_unavailable batch userId email db = (Inl (StoreError ''unavailable''), db)"

definition ex_env :: provisioning_env where
  "ex_env = \<lparr>defaultCircles = defaultCircles_spec,
             newDocId = (\<lambda>i. replicate (Suc i) CHR ''c''),
             processInvitesForNewUser = ex_stage_invite_update,
             commit_failure = None,
             server_time = 1000\<rparr>"

definition ex_env_invites_unavailable :: provisioning_env where
  "ex_env_invites_unavailable = ex_env\<lparr>processInvitesForNewUser := ex_invites_unavailable\<rparr>"

text \<open>
  A database in which one pending invite is addressed to the e-mail, and the same database
  after the subscription function has created the user document with its \<^verbatim>\<open>stripeId\<close>.
\<close>

definition ex_db :: firestore where
  "ex_db = [DocRef ''invites'' ''inv1'' \<mapsto> [''toEmail'' \<mapsto> VString ''a@x.com'',
                                              ''status'' \<mapsto> VString ''pending'']]"

definition ex_db_with_stripeId :: firestore where
  "ex_db_with_stripeId = ex_db(DocRef ''users'' ''u1'' \<mapsto> [''stripeId'' \<mapsto> VString ''cus_1''])"

definition ex_member :: User where
  "ex_member = \<lparr>user_id = ''m'', user_displayName = ''M'', user_isPremium = None\<rparr>"

definition ex_circle :: "circle_name \<Rightarrow> Circle" where
  "ex_circle n = \<lparr>circle_id = ''c1'', circle_ownerId = ''p'', circle_name = n,
                  circle_memberIds = [''p'', ''m'', ''z'']\<rparr>"

definition ex_dialog :: goal_dialog where
  "ex_dialog = \<lparr>isOpen = True, selectedTrait = [], isSubmitting = False\<rparr>"

section \<open>Notification aggregator: results\<close>

lemmas ex_aggregator_defs = ex_invite_def ex_reveal_def ex_goal_def ex_familyGoals_def
  ex_data_access_def ex_data_access_goals_down_def
  ex_premium_user_def ex_free_user_def ex_previous_badges_def

lemma promise_all3_Inr: "promise_all3 (Inr a) (Inr b) (Inr c) = Inr (a, b, c)"
  by (simp add: promise_all3_def)

lemma truthy_string_iff: "truthy_string x \<longleftrightarrow> (\<exists>c. x = Some c \<and> c \<noteq> [])"
  by (simp add: truthy_string_def split: option.splits)

lemma filter_filter_implied:
  "(\<And>x. P x \<Longrightarrow> Q x) \<Longrightarrow> filter P (filter Q xs) = filter P xs"
  by (induction xs) auto

lemma fetchNotifications_resolved:
  assumes "getReceivedInvitesForUser da (user_id u) = Inr invs"
      and "truthy_bool (user_isPremium u) \<longrightarrow> getRevealRequestsForUser da (user_id u) = Inr revs"
      and "getFamilyGoalsForUser da (user_id u) = Inr gs"
  shows "snd (fetchNotifications da u st) =
           Inr (st\<lparr>inviteCount := length (filter (\<lambda>invite. truthy_string (inv_circleId invite)
                                             \<and> inv_status invite = InvPending) invs),
                   revealRequestCount := (if truthy_bool (user_isPremium u) then length revs else 0),
                   goalSuggestionCount := length gs\<rparr>)"
  using assms by (simp add: fetchNotifications_def Let_def promise_all3_Inr)

lemma fetchNotifications_rejected:
  assumes "getReceivedInvitesForUser da (user_id u) = Inl e
           \<or> (truthy_bool (user_isPremium u) \<and> getRevealRequestsForUser da (user_id u) = Inl e)
           \<or> getFamilyGoalsForUser da (user_id u) = Inl e"
  shows "\<exists>e'. snd (fetchNotifications da u st) = Inl e'"
  using assms by (auto simp: fetchNotifications_def Let_def promise_all3_def split: sum.splits)

lemma fetchNotifications_cases:
  "(\<exists>e. snd (fetchNotifications da u st) = Inl e)
   \<or> (\<exists>invs revs gs.
         getReceivedInvitesForUser da (user_id u) = Inr invs
       \<and> (if truthy_bool (user_isPremium u)
          then getRevealRequestsForUser da (user_id u) = Inr revs else revs = [])
       \<and> getFamilyGoalsForUser da (user_id u) = Inr gs
       \<and> snd (fetchNotifications da u st) =
           Inr \<lparr>inviteCount = length (filter (\<lambda>invite. truthy_string (inv_circleId invite)
                                             \<and> inv_status invite = InvPending) invs),
                revealRequestCount = length revs,
                goalSuggestionCount = length gs\<rparr>)"
  by (auto simp: fetchNotifications_def Let_def promise_all3_def split: sum.splits)

text \<open>
  C1: for every user, after an aggregation cycle whose fetches succeed, the invite badge
  count equals the number of received invites whose circleId is set and whose status is
  pending. A circleId is set when it names a circle: the test is \<^verbatim>\<open>!!invite.circleId\<close>,
  which holds of a non-empty string; where no received invite carries the empty string,
  these are exactly the invites whose circleId is not \<^verbatim>\<open>undefined\<close>. Invites without a
  circleId never count: the badge is the same as it would be with those invites removed
  from the fetched list.
\<close>

theorem C1_invite_badge_count:
  assumes "getReceivedInvitesForUser da (user_id u) = Inr invs"
      and "truthy_bool (user_isPremium u) \<longrightarrow> getRevealRequestsForUser da (user_id u) = Inr revs"
      and "getFamilyGoalsForUser da (user_id u) = Inr gs"
  shows "inviteCount (notification_effect da (Some u) st) =
           length (filter (\<lambda>i. (\<exists>c. inv_circleId i = Some c \<and> c \<noteq> []) \<and> inv_status i = InvPending) invs)
         \<and> ((\<forall>i \<in> set invs. inv_circleId i \<noteq> Some [])
              \<longrightarrow> inviteCount (notification_effect da (Some u) st) =
                    length (filter (\<lambda>i. inv_circleId i \<noteq> None \<and> inv_status i = InvPending) invs))
         \<and> inviteCount (notification_effect da (Some u) st)
             = inviteCount (notification_effect
                 (da\<lparr>getReceivedInvitesForUser := (\<lambda>x. Inr (filter (\<lambda>i. inv_circleId i \<noteq> None) invs))\<rparr>)
                 (Some u) st)"
proof -
  let ?P = "\<lambda>i. truthy_string (inv_circleId i) \<and> inv_status i = InvPending"
  let ?da = "da\<lparr>getReceivedInvitesForUser := (\<lambda>x. Inr (filter (\<lambda>i. inv_circleId i \<noteq> None) invs))\<rparr>"
  have a: "inviteCount (notification_effect da (Some u) st) = length (filter ?P invs)"
    using fetchNotifications_resolved [OF assms, of st] by (simp add: notification_effect_def)
  have "snd (fetchNotifications ?da u st) =
          Inr (st\<lparr>inviteCount := length (filter ?P (filter (\<lambda>i. inv_circleId i \<noteq> None) invs)),
                  revealRequestCount := (if truthy_bool (user_isPremium u) then length revs else 0),
                  goalSuggestionCount := length gs\<rparr>)"
    by (rule fetchNotifications_resolved) (use assms in simp_all)
  moreover have "filter ?P (filter (\<lambda>i. inv_circleId i \<noteq> None) invs) = filter ?P invs"
    by (rule filter_filter_implied) (auto simp: truthy_string_iff)
  ultimately have b: "inviteCount (notification_effect ?da (Some u) st) = length (filter ?P invs)"
    by (simp add: notification_effect_def)
  have c: "inviteCount (notification_effect da (Some u) st) =
             length (filter (\<lambda>i. inv_circleId i \<noteq> None \<and> inv_status i = InvPending) invs)"
    if "\<forall>i \<in> set invs. inv_circleId i \<noteq> Some []"
  proof -
    have "filter ?P invs = filter (\<lambda>i. inv_circleId i \<noteq> None \<and> inv_status i = InvPending) invs"
      by (rule filter_cong) (use that in \<open>auto simp: truthy_string_iff\<close>)
    with a show ?thesis by simp
  qed
  have a': "inviteCount (notification_effect da (Some u) st) =
           length (filter (\<lambda>i. (\<exists>c. inv_circleId i = Some c \<and> c \<noteq> []) \<and> inv_status i = InvPending) invs)"
    using a by (simp add: truthy_string_iff)
  show ?thesis using a' b c a by simp
qed

theorem C1_invite_badge_count_witness:
  "inviteCount (notification_effect ex_data_access (Some ex_premium_user) ex_previous_badges) = 2
   \<and> length (filter (\<lambda>i. inv_circleId i \<noteq> None \<and> inv_status i = InvPending)
        [ex_invite ''i1'' (Some ''c1'') InvPending, ex_invite ''i2'' None InvPending,
         ex_invite ''i3'' (Some ''c2'') InvPending]) = 2"
proof -
  let ?invs = "[ex_invite ''i1'' (Some ''c1'') InvPending, ex_invite ''i2'' None InvPending,
                ex_invite ''i3'' (Some ''c2'') InvPending]"
  have fetched: "getReceivedInvitesForUser ex_data_access (user_id ex_premium_user) = Inr ?invs"
    "truthy_bool (user_isPremium ex_premium_user)
       \<longrightarrow> getRevealRequestsForUser ex_data_access (user_id ex_premium_user)
           = Inr [ex_reveal ''r1'', ex_reveal ''r2'']"
    "getFamilyGoalsForUser ex_data_access (user_id ex_premium_user) = Inr [ex_goal ''g1'' ''p'' GoalPending]"
    by (simp_all add: ex_aggregator_defs getFamilyGoalsForUser_spec_def)
  have named: "\<forall>i \<in> set ?invs. inv_circleId i \<noteq> Some []"
    by (simp add: ex_invite_def)
  have count: "length (filter (\<lambda>i. inv_circleId i \<noteq> None \<and> inv_status i = InvPending) ?invs) = 2"
    by (simp add: ex_invite_def)
  from C1_invite_badge_count [OF fetched, of ex_previous_badges] named
  have "inviteCount (notification_effect ex_data_access (Some ex_premium_user) ex_previous_badges)
          = length (filter (\<lambda>i. inv_circleId i \<noteq> None \<and> inv_status i = InvPending) ?invs)"
    by blast
  with count show ?thesis by simp
qed

text \<open>
  C2: for a user whose isPremium is not true, the reveal-request read is never issued, the
  run does not depend on what that read would return, every completed run sets the
  reveal-request badge to 0 (and a run completes as soon as the two issued reads succeed),
  and from the initial state the badge is 0 after the cycle whatever happens.
\<close>

theorem C2_non_premium_reveal_count_zero:
  assumes "\<not> truthy_bool (user_isPremium u)"
  shows "(\<forall>x. CallRevealRequests x \<notin> set (fst (fetchNotifications da u st)))
       \<and> fetchNotifications (da\<lparr>getRevealRequestsForUser := g\<rparr>) u st = fetchNotifications da u st
       \<and> (\<forall>st'. snd (fetchNotifications da u st) = Inr st' \<longrightarrow> revealRequestCount st' = 0)
       \<and> (getReceivedInvitesForUser da (user_id u) = Inr invs
            \<and> getFamilyGoalsForUser da (user_id u) = Inr gs
          \<longrightarrow> revealRequestCount (notification_effect da (Some u) st) = 0)
       \<and> revealRequestCount (notification_effect da (Some u) initial_badges) = 0"
proof -
  have calls: "\<forall>x. CallRevealRequests x \<notin> set (fst (fetchNotifications da u st))"
    using assms by (simp add: fetchNotifications_def Let_def)
  have indep: "fetchNotifications (da\<lparr>getRevealRequestsForUser := g\<rparr>) u st = fetchNotifications da u st"
    using assms by (simp add: fetchNotifications_def Let_def)
  have zero: "snd (fetchNotifications da u s) = Inr st' \<Longrightarrow> revealRequestCount st' = 0" for s st'
    using assms
    by (auto simp: fetchNotifications_def Let_def promise_all3_def split: sum.splits)
  have compl: "revealRequestCount (notification_effect da (Some u) st) = 0"
    if "getReceivedInvitesForUser da (user_id u) = Inr invs"
       "getFamilyGoalsForUser da (user_id u) = Inr gs"
    using fetchNotifications_resolved [of da u invs "[]" gs st] that assms
    by (simp add: notification_effect_def)
  have init: "revealRequestCount (notification_effect da (Some u) initial_badges) = 0"
    using zero [of initial_badges]
    by (auto simp: notification_effect_def initial_badges_def split: sum.splits)
  show ?thesis using calls indep zero [of st] compl init by blast
qed

theorem C2_non_premium_reveal_count_zero_witness:
  "\<not> truthy_bool (user_isPremium ex_free_user)
   \<and> getRevealRequestsForUser ex_data_access ''p'' = Inr [ex_reveal ''r1'', ex_reveal ''r2'']
   \<and> revealRequestCount (notification_effect ex_data_access (Some ex_free_user) ex_previous_badges) = 0"
  using C2_non_premium_reveal_count_zero [of ex_free_user ex_data_access ex_previous_badges
      "getRevealRequestsForUser ex_data_access"
      "[ex_invite ''i1'' (Some ''c1'') InvPending, ex_invite ''i2'' None InvPending,
        ex_invite ''i3'' (Some ''c2'') InvPending]"
      "[ex_goal ''g1'' ''p'' GoalPending]"]
  by (simp add: ex_aggregator_defs getFamilyGoalsForUser_spec_def truthy_bool_def)

text \<open>
  C3: after a cycle whose fetches succeed, the goal badge is the length of the list that the
  family-goal read returned; with the read as the specification describes it, that is the
  number of pending family-goal suggestions directed at the user.
\<close>

theorem C3_goal_badge_count:
  assumes "getReceivedInvitesForUser da (user_id u) = Inr invs"
      and "truthy_bool (user_isPremium u) \<longrightarrow> getRevealRequestsForUser da (user_id u) = Inr revs"
  shows "(getFamilyGoalsForUser da (user_id u) = Inr gs
            \<longrightarrow> goalSuggestionCount (notification_effect da (Some u) st) = length gs)
       \<and> (getFamilyGoalsForUser da = getFamilyGoalsForUser_spec familyGoals
            \<longrightarrow> goalSuggestionCount (notification_effect da (Some u) st)
                = length (filter (\<lambda>g. goal_toUserId g = user_id u \<and> goal_status g = GoalPending)
                            familyGoals))"
proof -
  have a: "goalSuggestionCount (notification_effect da (Some u) st) = length gs'"
    if "getFamilyGoalsForUser da (user_id u) = Inr gs'" for gs'
    using fetchNotifications_resolved [OF assms that, of st] by (simp add: notification_effect_def)
  have b: "goalSuggestionCount (notification_effect da (Some u) st)
             = length (filter (\<lambda>g. goal_toUserId g = user_id u \<and> goal_status g = GoalPending) familyGoals)"
    if "getFamilyGoalsForUser da = getFamilyGoalsForUser_spec familyGoals"
    using a [of "filter (\<lambda>g. goal_toUserId g = user_id u \<and> goal_status g = GoalPending) familyGoals"] that
    by (simp add: getFamilyGoalsForUser_spec_def)
  show ?thesis using a [of gs] b by blast
qed

theorem C3_goal_badge_count_witness:
  "notification_effect ex_data_access (Some ex_premium_user) initial_badges
     = \<lparr>inviteCount = 2, revealRequestCount = 2, goalSuggestionCount = 1\<rparr>
   \<and> goalSuggestionCount (notification_effect ex_data_access (Some ex_premium_user) initial_badges)
     = length (filter (\<lambda>g. goal_toUserId g = ''p'' \<and> goal_status g = GoalPending) ex_familyGoals)"
proof -
  have "goalSuggestionCount (notification_effect ex_data_access (Some ex_premium_user) initial_badges)
     = length (filter (\<lambda>g. goal_toUserId g = ''p'' \<and> goal_status g = GoalPending) ex_familyGoals)"
    using C3_goal_badge_count [of ex_data_access ex_premium_user
      "[ex_invite ''i1'' (Some ''c1'') InvPending, ex_invite ''i2'' None InvPending,
        ex_invite ''i3'' (Some ''c2'') InvPending]"
      "[ex_reveal ''r1'', ex_reveal ''r2'']" "[]" initial_badges ex_familyGoals]
    by (simp add: ex_data_access_def ex_premium_user_def)
  moreover have "notification_effect ex_data_access (Some ex_premium_user) initial_badges
     = \<lparr>inviteCount = 2, revealRequestCount = 2, goalSuggestionCount = 1\<rparr>"
    by (simp add: notification_effect_def fetchNotifications_def Let_def ex_aggregator_defs
        promise_all3_def truthy_string_def truthy_bool_def getFamilyGoalsForUser_spec_def
        initial_badges_def)
  ultimately show ?thesis by simp
qed

text \<open>
  C4: when one of the issued fetches rejects, the run rejects and the three badge counts
  keep their previous values; in every case either the run rejected and the state is the
  previous one, or all three counts are the ones computed from this run's three results.
\<close>

theorem C4_no_partial_badge_update:
  "(getReceivedInvitesForUser da (user_id u) = Inl e
      \<or> (truthy_bool (user_isPremium u) \<and> getRevealRequestsForUser da (user_id u) = Inl e)
      \<or> getFamilyGoalsForUser da (user_id u) = Inl e
    \<longrightarrow> (\<exists>e'. snd (fetchNotifications da u st) = Inl e') \<and> notification_effect da (Some u) st = st)
   \<and> (((\<exists>e'. snd (fetchNotifications da u st) = Inl e') \<and> notification_effect da (Some u) st = st)
      \<or> (\<exists>invs revs gs.
            getReceivedInvitesForUser da (user_id u) = Inr invs
          \<and> (if truthy_bool (user_isPremium u)
             then getRevealRequestsForUser da (user_id u) = Inr revs else revs = [])
          \<and> getFamilyGoalsForUser da (user_id u) = Inr gs
          \<and> notification_effect da (Some u) st =
              \<lparr>inviteCount = length (filter (\<lambda>invite. truthy_string (inv_circleId invite)
                                                \<and> inv_status invite = InvPending) invs),
               revealRequestCount = length revs,
               goalSuggestionCount = length gs\<rparr>))"
proof -
  have rej: "notification_effect da (Some u) st = st"
    if "\<exists>e'. snd (fetchNotifications da u st) = Inl e'"
    using that by (auto simp: notification_effect_def)
  have a: "(\<exists>e'. snd (fetchNotifications da u st) = Inl e') \<and> notification_effect da (Some u) st = st"
    if "getReceivedInvitesForUser da (user_id u) = Inl e
      \<or> (truthy_bool (user_isPremium u) \<and> getRevealRequestsForUser da (user_id u) = Inl e)
      \<or> getFamilyGoalsForUser da (user_id u) = Inl e"
    using fetchNotifications_rejected [OF that, of st] rej by blast
  have b: "((\<exists>e'. snd (fetchNotifications da u st) = Inl e') \<and> notification_effect da (Some u) st = st)
      \<or> (\<exists>invs revs gs.
            getReceivedInvitesForUser da (user_id u) = Inr invs
          \<and> (if truthy_bool (user_isPremium u)
             then getRevealRequestsForUser da (user_id u) = Inr revs else revs = [])
          \<and> getFamilyGoalsForUser da (user_id u) = Inr gs
          \<and> notification_effect da (Some u) st =
              \<lparr>inviteCount = length (filter (\<lambda>invite. truthy_string (inv_circleId invite)
                                                \<and> inv_status invite = InvPending) invs),
               revealRequestCount = length revs,
               goalSuggestionCount = length gs\<rparr>)"
  proof (cases "\<exists>e'. snd (fetchNotifications da u st) = Inl e'")
    case True
    then show ?thesis using rej by blast
  next
    case False
    with fetchNotifications_cases [of da u st] obtain invs revs gs where
      "getReceivedInvitesForUser da (user_id u) = Inr invs"
      "if truthy_bool (user_isPremium u)
         then getRevealRequestsForUser da (user_id u) = Inr revs else revs = []"
      "getFamilyGoalsForUser da (user_id u) = Inr gs"
      "snd (fetchNotifications da u st) =
           Inr \<lparr>inviteCount = length (filter (\<lambda>invite. truthy_string (inv_circleId invite)
                                             \<and> inv_status invite = InvPending) invs),
                revealRequestCount = length revs,
                goalSuggestionCount = length gs\<rparr>"
      by blast
    then show ?thesis by (auto simp: notification_effect_def)
  qed
  show ?thesis using a b by blast
qed

theorem C4_no_partial_badge_update_witness:
  "getFamilyGoalsForUser ex_data_access_goals_down (user_id ex_premium_user) = Inl (StoreError ''unavailable'')
   \<and> notification_effect ex_data_access_goals_down (Some ex_premium_user) ex_previous_badges
       = ex_previous_badges"
  using C4_no_partial_badge_update [of ex_data_access_goals_down ex_premium_user
      "StoreError ''unavailable''" ex_previous_badges]
  by (simp add: ex_data_access_goals_down_def)

section \<open>The document store: facts about staged writes\<close>

lemma apply_write_other:
  "apply_write now db w = Some db' \<Longrightarrow> op_ref w \<noteq> r \<Longrightarrow> db' r = db r"
  by (cases "(now, db, w)" rule: apply_write.cases) (auto split: option.splits)

lemma apply_batch_other:
  "apply_batch now db ws = Some db' \<Longrightarrow> \<forall>w \<in> set ws. op_ref w \<noteq> r \<Longrightarrow> db' r = db r"
proof (induction ws arbitrary: db)
  case Nil
  then show ?case by simp
next
  case (Cons w ws)
  from Cons.prems(1) obtain db1 where w: "apply_write now db w = Some db1"
    and rest: "apply_batch now db1 ws = Some db'"
    by (auto split: option.splits)
  have "db' r = db1 r" using Cons.IH [OF rest] Cons.prems(2) by simp
  moreover have "db1 r = db r" using apply_write_other [OF w] Cons.prems(2) by simp
  ultimately show ?case by simp
qed

lemma apply_write_set_total: "is_set_op w \<Longrightarrow> apply_write now db w \<noteq> None"
  by (cases "(now, db, w)" rule: apply_write.cases) auto

lemma apply_batch_sets_total:
  "\<forall>w \<in> set ws. is_set_op w \<Longrightarrow> \<exists>db'. apply_batch now db ws = Some db'"
proof (induction ws arbitrary: db)
  case Nil
  then show ?case by simp
next
  case (Cons w ws)
  then obtain db1 where "apply_write now db w = Some db1"
    using apply_write_set_total [of w now db] by auto
  with Cons show ?case by simp
qed

text \<open>The last plain set aimed at a document decides what the document holds.\<close>

lemma apply_batch_last_set:
  "apply_batch now db ws = Some db' \<Longrightarrow> i < length ws \<Longrightarrow> ws ! i = SetOp r d False
     \<Longrightarrow> \<forall>j. i < j \<and> j < length ws \<longrightarrow> op_ref (ws ! j) \<noteq> r
     \<Longrightarrow> db' r = Some (resolve_sentinels now d)"
proof (induction ws arbitrary: db i)
  case Nil
  then show ?case by simp
next
  case (Cons w ws)
  from Cons.prems(1) obtain db1 where w: "apply_write now db w = Some db1"
    and rest: "apply_batch now db1 ws = Some db'"
    by (auto split: option.splits)
  show ?case
  proof (cases i)
    case 0
    then have weq: "w = SetOp r d False" using Cons.prems(3) by simp
    have "\<forall>x \<in> set ws. op_ref x \<noteq> r"
    proof
      fix x assume "x \<in> set ws"
      then obtain j where "j < length ws" "ws ! j = x" by (auto simp: in_set_conv_nth)
      then show "op_ref x \<noteq> r" using Cons.prems(4) [rule_format, of "Suc j"] 0 by auto
    qed
    then have "db' r = db1 r" using apply_batch_other [OF rest] by simp
    then show ?thesis using w weq by auto
  next
    case (Suc k)
    have "\<forall>j. k < j \<and> j < length ws \<longrightarrow> op_ref (ws ! j) \<noteq> r"
      using Cons.prems(4) Suc by (metis Suc_less_eq length_Cons nth_Cons_Suc)
    then show ?thesis using Cons.IH [OF rest, of k] Cons.prems(2,3) Suc by simp
  qed
qed

lemma batch_commit_all_or_nothing:
  "fst (batch_commit failure now batch db) = Inl e \<Longrightarrow> snd (batch_commit failure now batch db) = db"
  by (auto simp: batch_commit_def split: option.splits)

lemma resolve_sentinels_None: "d k = None \<Longrightarrow> resolve_sentinels now d k = None"
  by (simp add: resolve_sentinels_def)

lemma resolve_sentinels_plain:
  "d k = Some v \<Longrightarrow> v \<noteq> VServerTimestamp \<Longrightarrow> resolve_sentinels now d k = Some v"
  by (cases v) (simp_all add: resolve_sentinels_def)

section \<open>User provisioning: results\<close>

lemma newUser_keys:
  "fst ` set (newUser fbUser ad) = {''displayName'', ''firstName'', ''lastName'',
      ''displayName_lowercase'', ''email'', ''photoUrl'', ''createdAt'', ''isPremium'',
      ''revealTokens''}"
  by (simp add: newUser_def Let_def)

lemma staged_writes_length:
  "length (staged_writes env fbUser ad) = Suc (length (defaultCircles env))"
  by (simp add: staged_writes_def)

lemma staged_writes_user:
  "staged_writes env fbUser ad ! 0 = SetOp (userDocRef fbUser) (map_of (newUser fbUser ad)) True"
  by (simp add: staged_writes_def)

lemma staged_writes_circle:
  "i < length (defaultCircles env) \<Longrightarrow>
     staged_writes env fbUser ad ! Suc i =
       SetOp (DocRef ''circles'' (newDocId env i)) (dataWithOwner fbUser (defaultCircles env ! i)) False"
  by (simp add: staged_writes_def nth_enumerate_eq)

lemma staged_writes_tl_refs:
  "w \<in> set (tl (staged_writes env fbUser ad)) \<Longrightarrow> \<exists>x. op_ref w = DocRef ''circles'' x"
  by (auto simp: staged_writes_def)

lemma staged_writes_sets: "\<forall>w \<in> set (staged_writes env fbUser ad). is_set_op w"
  by (auto simp: staged_writes_def)

lemma staged_writes_applicable: "\<exists>db'. apply_batch now db (staged_writes env fbUser ad) = Some db'"
  using apply_batch_sets_total [OF staged_writes_sets] .

lemma dataWithOwner_ownerId:
  "dataWithOwner fbUser c ''ownerId'' = Some (VString (uid fbUser))"
  by (simp add: dataWithOwner_def)

lemma dataWithOwner_memberIds:
  "dataWithOwner fbUser c ''memberIds'' = Some (VArray [VString (uid fbUser)])"
  by (simp add: dataWithOwner_def)

lemma dataWithOwner_rest:
  "k \<noteq> ''ownerId'' \<Longrightarrow> k \<noteq> ''memberIds'' \<Longrightarrow> dataWithOwner fbUser c k = c k"
  by (simp add: dataWithOwner_def map_add_def)

lemma resolved_ownerId:
  "resolve_sentinels now (dataWithOwner fbUser c) ''ownerId'' = Some (VString (uid fbUser))"
  by (simp add: resolve_sentinels_def dataWithOwner_ownerId)

lemma resolved_memberIds:
  "resolve_sentinels now (dataWithOwner fbUser c) ''memberIds'' = Some (VArray [VString (uid fbUser)])"
  by (simp add: resolve_sentinels_def dataWithOwner_memberIds)

lemma user_write_frame:
  assumes "field \<notin> fst ` set (newUser fbUser ad)"
      and "apply_batch now db (staged_writes env fbUser ad) = Some db'"
  shows "\<exists>new. db' (userDocRef fbUser) = Some new
           \<and> new field = (case db (userDocRef fbUser) of None \<Rightarrow> None | Some old \<Rightarrow> old field)"
proof -
  let ?r = "userDocRef fbUser"
  let ?d = "map_of (newUser fbUser ad)"
  have none: "?d field = None" using assms(1) by (simp add: map_of_eq_None_iff)
  obtain db1 where w: "apply_write now db (SetOp ?r ?d True) = Some db1"
    and rest: "apply_batch now db1 (tl (staged_writes env fbUser ad)) = Some db'"
    using assms(2) by (auto simp: staged_writes_def split: option.splits)
  have "\<forall>w \<in> set (tl (staged_writes env fbUser ad)). op_ref w \<noteq> ?r"
  proof
    fix w assume "w \<in> set (tl (staged_writes env fbUser ad))"
    then obtain x where "op_ref w = DocRef ''circles'' x"
      using staged_writes_tl_refs by blast
    then show "op_ref w \<noteq> ?r" by (simp add: userDocRef_def)
  qed
  then have "db' ?r = db1 ?r" using apply_batch_other [OF rest] by simp
  moreover have "\<exists>new. db1 ?r = Some new
           \<and> new field = (case db ?r of None \<Rightarrow> None | Some old \<Rightarrow> old field)"
    using w none by (auto simp: map_add_def resolve_sentinels_None split: option.splits)
  ultimately show ?thesis by simp
qed

lemma circle_written:
  assumes "apply_batch now db (staged_writes env fbUser ad) = Some db'"
      and "inj_on (newDocId env) {..<length (defaultCircles env)}"
      and "i < length (defaultCircles env)"
  shows "db' (DocRef ''circles'' (newDocId env i))
           = Some (resolve_sentinels now (dataWithOwner fbUser (defaultCircles env ! i)))"
proof (rule apply_batch_last_set [OF assms(1), of "Suc i"])
  show "Suc i < length (staged_writes env fbUser ad)"
    using assms(3) by (simp add: staged_writes_length)
  show "staged_writes env fbUser ad ! Suc i =
          SetOp (DocRef ''circles'' (newDocId env i)) (dataWithOwner fbUser (defaultCircles env ! i)) False"
    using assms(3) by (rule staged_writes_circle)
  show "\<forall>j. Suc i < j \<and> j < length (staged_writes env fbUser ad)
            \<longrightarrow> op_ref (staged_writes env fbUser ad ! j) \<noteq> DocRef ''circles'' (newDocId env i)"
  proof (intro allI impI)
    fix j assume j: "Suc i < j \<and> j < length (staged_writes env fbUser ad)"
    then obtain k where k: "j = Suc k" "i < k" "k < length (defaultCircles env)"
      by (cases j) (auto simp: staged_writes_length)
    have "k \<in> {..<length (defaultCircles env)}" "i \<in> {..<length (defaultCircles env)}" "k \<noteq> i"
      using assms(3) k by simp_all
    then have "newDocId env k \<noteq> newDocId env i"
      using inj_onD [OF assms(2)] by blast
    then show "op_ref (staged_writes env fbUser ad ! j) \<noteq> DocRef ''circles'' (newDocId env i)"
      using k staged_writes_circle [of k env fbUser ad] by simp
  qed
qed

lemma createNewUserData_without_email:
  "\<not> truthy_string (fb_email fbUser) \<Longrightarrow>
     createNewUserData env fbUser ad db =
       batch_commit (commit_failure env) (server_time env) (staged_writes env fbUser ad) db"
  by (auto simp: createNewUserData_def truthy_string_def Let_def split: option.splits)

lemma createNewUserData_with_email:
  "fb_email fbUser = Some email \<Longrightarrow> email \<noteq> [] \<Longrightarrow>
     createNewUserData env fbUser ad db =
       (case processInvitesForNewUser env (staged_writes env fbUser ad) (uid fbUser) email db of
          (Inl e, db1) \<Rightarrow> (Inl e, db1)
        | (Inr batch', db1) \<Rightarrow> batch_commit (commit_failure env) (server_time env) batch' db1)"
  by (simp add: createNewUserData_def Let_def split: prod.splits sum.splits)

lemma createNewUserData_commits:
  assumes "\<not> truthy_string (fb_email fbUser)" and "commit_failure env = None"
  shows "\<exists>db'. createNewUserData env fbUser ad db = (Inr (), db')
             \<and> apply_batch (server_time env) db (staged_writes env fbUser ad) = Some db'"
proof -
  obtain db' where "apply_batch (server_time env) db (staged_writes env fbUser ad) = Some db'"
    using staged_writes_applicable by blast
  then show ?thesis
    using assms by (simp add: createNewUserData_without_email batch_commit_def)
qed

lemma apply_batch_append:
  "apply_batch now db (xs @ ys) =
     (case apply_batch now db xs of None \<Rightarrow> None | Some db1 \<Rightarrow> apply_batch now db1 ys)"
  by (induction xs arbitrary: db) (auto split: option.splits)

lemma apply_write_keeps_docs:
  "apply_write now db w = Some db' \<Longrightarrow> db r \<noteq> None \<Longrightarrow> db' r \<noteq> None"
  by (cases "(now, db, w)" rule: apply_write.cases) (auto split: option.splits if_splits)

lemma apply_batch_keeps_docs:
  "apply_batch now db ws = Some db' \<Longrightarrow> db r \<noteq> None \<Longrightarrow> db' r \<noteq> None"
proof (induction ws arbitrary: db)
  case Nil
  then show ?case by simp
next
  case (Cons w ws)
  from Cons.prems(1) obtain db1 where w: "apply_write now db w = Some db1"
    and rest: "apply_batch now db1 ws = Some db'"
    by (auto split: option.splits)
  show ?case
    using Cons.IH [OF rest] apply_write_keeps_docs [OF w Cons.prems(2)] by simp
qed

text \<open>
  A run for an identity with an e-mail, when the helper hands the batch back with further
  writes staged behind the user and circle writes and the commit goes through: the result
  is the database the helper left with the whole batch applied to it.
\<close>

lemma createNewUserData_email_commits:
  assumes "fb_email fbUser = Some email" and "email \<noteq> []"
      and "processInvitesForNewUser env (staged_writes env fbUser ad) (uid fbUser) email db
             = (Inr (staged_writes env fbUser ad @ extra), db1)"
      and "commit_failure env = None"
      and "apply_batch (server_time env) db1 (staged_writes env fbUser ad @ extra) = Some db'"
  shows "createNewUserData env fbUser ad db = (Inr (), db')"
    and "\<exists>db2. apply_batch (server_time env) db1 (staged_writes env fbUser ad) = Some db2
             \<and> apply_batch (server_time env) db2 extra = Some db'"
proof -
  show "createNewUserData env fbUser ad db = (Inr (), db')"
    using assms by (simp add: createNewUserData_with_email batch_commit_def)
  show "\<exists>db2. apply_batch (server_time env) db1 (staged_writes env fbUser ad) = Some db2
             \<and> apply_batch (server_time env) db2 extra = Some db'"
    using assms(5) by (auto simp: apply_batch_append split: option.splits)
qed

lemma email_run_user_frame:
  assumes "field \<notin> fst ` set (newUser fbUser ad)"
      and "fb_email fbUser = Some email" and "email \<noteq> []"
      and "processInvitesForNewUser env (staged_writes env fbUser ad) (uid fbUser) email db
             = (Inr (staged_writes env fbUser ad @ extra), db1)"
      and "commit_failure env = None"
      and "db1 (userDocRef fbUser) = db (userDocRef fbUser)"
      and "\<forall>w \<in> set extra. op_ref w \<noteq> userDocRef fbUser"
      and "apply_batch (server_time env) db1 (staged_writes env fbUser ad @ extra) = Some db'"
  shows "createNewUserData env fbUser ad db = (Inr (), db')
       \<and> (\<exists>new. db' (userDocRef fbUser) = Some new
            \<and> new field = (case db (userDocRef fbUser) of None \<Rightarrow> None | Some old \<Rightarrow> old field))"
proof -
  obtain db2 where staged: "apply_batch (server_time env) db1 (staged_writes env fbUser ad) = Some db2"
    and rest: "apply_batch (server_time env) db2 extra = Some db'"
    using createNewUserData_email_commits(2) [OF assms(2-5) assms(8)] by blast
  have "db' (userDocRef fbUser) = db2 (userDocRef fbUser)"
    using apply_batch_other [OF rest assms(7)] .
  with user_write_frame [OF assms(1) staged] assms(6)
    createNewUserData_email_commits(1) [OF assms(2-5) assms(8)]
  show ?thesis by simp
qed

lemma email_run_circles:
  assumes "fb_email fbUser = Some email" and "email \<noteq> []"
      and "processInvitesForNewUser env (staged_writes env fbUser ad) (uid fbUser) email db
             = (Inr (staged_writes env fbUser ad @ extra), db1)"
      and "commit_failure env = None"
      and "inj_on (newDocId env) {..<length (defaultCircles env)}"
      and "\<forall>w \<in> set extra. \<forall>i < length (defaultCircles env).
              op_ref w \<noteq> DocRef ''circles'' (newDocId env i)"
      and "apply_batch (server_time env) db1 (staged_writes env fbUser ad @ extra) = Some db'"
  shows "createNewUserData env fbUser ad db = (Inr (), db')
       \<and> db' (userDocRef fbUser) \<noteq> None
       \<and> (\<forall>i < length (defaultCircles env).
            \<exists>d. db' (DocRef ''circles'' (newDocId env i)) = Some d
              \<and> d ''ownerId'' = Some (VString (uid fbUser))
              \<and> d ''memberIds'' = Some (VArray [VString (uid fbUser)]))"
proof -
  obtain db2 where staged: "apply_batch (server_time env) db1 (staged_writes env fbUser ad) = Some db2"
    and rest: "apply_batch (server_time env) db2 extra = Some db'"
    using createNewUserData_email_commits(2) [OF assms(1-4) assms(7)] by blast
  have "''stripeId'' \<notin> fst ` set (newUser fbUser ad)" by (simp add: newUser_keys)
  from user_write_frame [OF this staged] have "db2 (userDocRef fbUser) \<noteq> None" by auto
  then have user: "db' (userDocRef fbUser) \<noteq> None"
    using apply_batch_keeps_docs [OF rest] by blast
  have "\<exists>d. db' (DocRef ''circles'' (newDocId env i)) = Some d
              \<and> d ''ownerId'' = Some (VString (uid fbUser))
              \<and> d ''memberIds'' = Some (VArray [VString (uid fbUser)])"
    if i: "i < length (defaultCircles env)" for i
  proof -
    have "\<forall>w \<in> set extra. op_ref w \<noteq> DocRef ''circles'' (newDocId env i)"
      using assms(6) i by blast
    then have "db' (DocRef ''circles'' (newDocId env i)) = db2 (DocRef ''circles'' (newDocId env i))"
      using apply_batch_other [OF rest] by blast
    then show ?thesis
      using circle_written [OF staged assms(5) i] resolved_ownerId resolved_memberIds by simp
  qed
  with user createNewUserData_email_commits(1) [OF assms(1-4) assms(7)]
  show ?thesis by blast
qed

lemma staged_writes_not_invites:
  "\<forall>w \<in> set (staged_writes env fbUser ad). op_ref w \<noteq> DocRef ''invites'' i"
  by (auto simp: staged_writes_def userDocRef_def)

text \<open>
  The batch of the e-mail example: the user and circle writes followed by the update of one
  invite that exists. It can be applied, and afterwards the invite names the new user.
\<close>

lemma staged_then_invite_update:
  assumes "db (DocRef ''invites'' i) \<noteq> None"
  shows "\<exists>db'. apply_batch now db
                 (staged_writes env fbUser ad
                    @ [UpdateOp (DocRef ''invites'' i) [''toUserId'' \<mapsto> VString x]]) = Some db'
             \<and> (\<exists>inv. db' (DocRef ''invites'' i) = Some inv \<and> inv ''toUserId'' = Some (VString x))"
proof -
  obtain db2 where staged: "apply_batch now db (staged_writes env fbUser ad) = Some db2"
    using staged_writes_applicable by blast
  have "db2 (DocRef ''invites'' i) = db (DocRef ''invites'' i)"
    using apply_batch_other [OF staged staged_writes_not_invites] .
  with assms obtain old where "db2 (DocRef ''invites'' i) = Some old" by auto
  with staged show ?thesis
    by (simp add: apply_batch_append resolve_sentinels_def)
qed

lemmas ex_provisioning_defs = ex_fbUser_def ex_fbUser_no_email_def ex_additional_def
  ex_stage_invite_update_def ex_invites_unavailable_def ex_env_def
  ex_env_invites_unavailable_def ex_db_def ex_db_with_stripeId_def defaultCircles_spec_def

text \<open>
  C5: the user document is staged as a set with merge. Whatever the payload does not
  mention (\<^verbatim>\<open>stripeId\<close> is never in the payload) has, after the staged writes are applied,
  the value it had before. So too after a whole run of \<^verbatim>\<open>createNewUserData\<close>: for an
  identity without e-mail, and for an identity with an e-mail whose invite processing
  leaves the user document alone (it does not write it directly and stages no write
  aimed at it).
\<close>

theorem C5_user_document_merged:
  assumes "field \<notin> fst ` set (newUser fbUser ad)"
  shows "staged_writes env fbUser ad ! 0
           = SetOp (userDocRef fbUser) (map_of (newUser fbUser ad)) True
       \<and> ''stripeId'' \<notin> fst ` set (newUser fbUser ad)
       \<and> (\<exists>db'. apply_batch now db (staged_writes env fbUser ad) = Some db'
            \<and> (\<exists>new. db' (userDocRef fbUser) = Some new
                 \<and> new field = (case db (userDocRef fbUser) of None \<Rightarrow> None | Some old \<Rightarrow> old field)))
       \<and> (\<not> truthy_string (fb_email fbUser) \<and> commit_failure env = None
            \<longrightarrow> (\<exists>db'. createNewUserData env fbUser ad db = (Inr (), db')
                 \<and> (\<exists>new. db' (userDocRef fbUser) = Some new
                      \<and> new field = (case db (userDocRef fbUser) of None \<Rightarrow> None | Some old \<Rightarrow> old field))))
       \<and> (fb_email fbUser = Some email \<and> email \<noteq> []
            \<and> processInvitesForNewUser env (staged_writes env fbUser ad) (uid fbUser) email db
                = (Inr (staged_writes env fbUser ad @ extra), db1)
            \<and> commit_failure env = None
            \<and> db1 (userDocRef fbUser) = db (userDocRef fbUser)
            \<and> (\<forall>w \<in> set extra. op_ref w \<noteq> userDocRef fbUser)
            \<and> apply_batch (server_time env) db1 (staged_writes env fbUser ad @ extra) = Some db2
            \<longrightarrow> createNewUserData env fbUser ad db = (Inr (), db2)
               \<and> (\<exists>new. db2 (userDocRef fbUser) = Some new
                    \<and> new field = (case db (userDocRef fbUser) of None \<Rightarrow> None | Some old \<Rightarrow> old field)))"
proof -
  have a: "''stripeId'' \<notin> fst ` set (newUser fbUser ad)"
    by (simp add: newUser_keys)
  have b: "\<exists>db'. apply_batch now db (staged_writes env fbUser ad) = Some db'
            \<and> (\<exists>new. db' (userDocRef fbUser) = Some new
                 \<and> new field = (case db (userDocRef fbUser) of None \<Rightarrow> None | Some old \<Rightarrow> old field))"
    using staged_writes_applicable [of now db env fbUser ad] user_write_frame [OF assms] by blast
  have c: "\<exists>db'. createNewUserData env fbUser ad db = (Inr (), db')
                 \<and> (\<exists>new. db' (userDocRef fbUser) = Some new
                      \<and> new field = (case db (userDocRef fbUser) of None \<Rightarrow> None | Some old \<Rightarrow> old field))"
    if "\<not> truthy_string (fb_email fbUser)" "commit_failure env = None"
    using createNewUserData_commits [OF that, of ad db] user_write_frame [OF assms] by blast
  have d: "createNewUserData env fbUser ad db = (Inr (), db2)
               \<and> (\<exists>new. db2 (userDocRef fbUser) = Some new
                    \<and> new field = (case db (userDocRef fbUser) of None \<Rightarrow> None | Some old \<Rightarrow> old field))"
    if "fb_email fbUser = Some email" "email \<noteq> []"
       "processInvitesForNewUser env (staged_writes env fbUser ad) (uid fbUser) email db
                = (Inr (staged_writes env fbUser ad @ extra), db1)"
       "commit_failure env = None"
       "db1 (userDocRef fbUser) = db (userDocRef fbUser)"
       "\<forall>w \<in> set extra. op_ref w \<noteq> userDocRef fbUser"
       "apply_batch (server_time env) db1 (staged_writes env fbUser ad @ extra) = Some db2"
    using email_run_user_frame [OF assms that] .
  show ?thesis using staged_writes_user a b c d by blast
qed

theorem C5_user_document_merged_witness:
  "ex_db_with_stripeId (userDocRef ex_fbUser_no_email) = Some [''stripeId'' \<mapsto> VString ''cus_1'']
   \<and> (\<exists>db'. createNewUserData ex_env ex_fbUser_no_email ex_additional ex_db_with_stripeId = (Inr (), db')
         \<and> (\<exists>new. db' (userDocRef ex_fbUser_no_email) = Some new
              \<and> new ''stripeId'' = Some (VString ''cus_1'')))
   \<and> fb_email ex_fbUser = Some ''a@x.com''
   \<and> (\<exists>db'. createNewUserData ex_env ex_fbUser ex_additional ex_db_with_stripeId = (Inr (), db')
         \<and> (\<exists>new. db' (userDocRef ex_fbUser) = Some new
              \<and> new ''stripeId'' = Some (VString ''cus_1'')))"
proof -
  have no_email: "ex_db_with_stripeId (userDocRef ex_fbUser_no_email) = Some [''stripeId'' \<mapsto> VString ''cus_1'']
   \<and> (\<exists>db'. createNewUserData ex_env ex_fbUser_no_email ex_additional ex_db_with_stripeId = (Inr (), db')
         \<and> (\<exists>new. db' (userDocRef ex_fbUser_no_email) = Some new
              \<and> new ''stripeId'' = Some (VString ''cus_1'')))"
    using C5_user_document_merged [of "''stripeId''" ex_fbUser_no_email ex_additional ex_env
        "server_time ex_env" ex_db_with_stripeId]
    by (simp add: newUser_keys truthy_string_def userDocRef_def ex_fbUser_no_email_def ex_env_def
        ex_db_with_stripeId_def)
  let ?extra = "[UpdateOp (DocRef ''invites'' ''inv1'') [''toUserId'' \<mapsto> VString ''u1'']]"
  have key: "''stripeId'' \<notin> fst ` set (newUser ex_fbUser ex_additional)"
    by (simp add: newUser_keys)
  have email: "fb_email ex_fbUser = Some ''a@x.com''" "''a@x.com'' \<noteq> []"
    by (simp_all add: ex_fbUser_def)
  have helper: "processInvitesForNewUser ex_env (staged_writes ex_env ex_fbUser ex_additional)
                  (uid ex_fbUser) ''a@x.com'' ex_db_with_stripeId
                = (Inr (staged_writes ex_env ex_fbUser ex_additional @ ?extra), ex_db_with_stripeId)"
    by (simp add: ex_env_def ex_stage_invite_update_def ex_fbUser_def)
  have commit: "commit_failure ex_env = None"
    by (simp add: ex_env_def)
  have aimed: "\<forall>w \<in> set ?extra. op_ref w \<noteq> userDocRef ex_fbUser"
    by (simp add: userDocRef_def)
  have "ex_db_with_stripeId (DocRef ''invites'' ''inv1'') \<noteq> None"
    by (simp add: ex_db_with_stripeId_def ex_db_def)
  with staged_then_invite_update [where db = ex_db_with_stripeId and i = "''inv1''"
      and now = "server_time ex_env" and env = ex_env and fbUser = ex_fbUser
      and ad = ex_additional and x = "''u1''"]
  obtain db2 where applied:
    "apply_batch (server_time ex_env) ex_db_with_stripeId
       (staged_writes ex_env ex_fbUser ex_additional @ ?extra) = Some db2"
    by blast
  have before: "ex_db_with_stripeId (userDocRef ex_fbUser) = Some [''stripeId'' \<mapsto> VString ''cus_1'']"
    by (simp add: ex_db_with_stripeId_def userDocRef_def ex_fbUser_def)
  have "createNewUserData ex_env ex_fbUser ex_additional ex_db_with_stripeId = (Inr (), db2)
          \<and> (\<exists>new. db2 (userDocRef ex_fbUser) = Some new
               \<and> new ''stripeId'' = (case ex_db_with_stripeId (userDocRef ex_fbUser) of
                                        None \<Rightarrow> None | Some old \<Rightarrow> old ''stripeId''))"
    using C5_user_document_merged [OF key, where env = ex_env and db = ex_db_with_stripeId
        and email = "''a@x.com''" and extra = ?extra and ?db1.0 = ex_db_with_stripeId and ?db2.0 = db2]
      email helper commit aimed applied
    by blast
  then have with_email: "\<exists>db'. createNewUserData ex_env ex_fbUser ex_additional ex_db_with_stripeId = (Inr (), db')
         \<and> (\<exists>new. db' (userDocRef ex_fbUser) = Some new
              \<and> new ''stripeId'' = Some (VString ''cus_1''))"
    by (auto simp: before)
  show ?thesis using no_email email(1) with_email by blast
qed

text \<open>
  C6: the batch that \<^verbatim>\<open>createNewUserData\<close> stages holds the user document first and then
  exactly one plain set per entry of \<^verbatim>\<open>defaultCircles\<close>, each a copy of the entry with
  ownerId the new user's id and memberIds the one-element list of that id. That batch is
  what is committed (for an identity without e-mail) or handed to the invite processing,
  whose returned batch is committed (for an identity with an e-mail). The commit is
  all-or-nothing. After a run that commits, the user document and every one of these circle
  documents are in the database: for an identity without e-mail, and for an identity with
  an e-mail whose invite processing stages its further writes behind these and aims none
  of them at the new circles.
\<close>

theorem C6_default_circles_in_batch:
  "length (staged_writes env fbUser ad) = Suc (length (defaultCircles env))
   \<and> staged_writes env fbUser ad ! 0
       = SetOp (userDocRef fbUser) (map_of (newUser fbUser ad)) True
   \<and> (\<forall>i < length (defaultCircles env).
        \<exists>d. staged_writes env fbUser ad ! Suc i = SetOp (DocRef ''circles'' (newDocId env i)) d False
          \<and> d ''ownerId'' = Some (VString (uid fbUser))
          \<and> d ''memberIds'' = Some (VArray [VString (uid fbUser)])
          \<and> (\<forall>k. k \<noteq> ''ownerId'' \<and> k \<noteq> ''memberIds'' \<longrightarrow> d k = (defaultCircles env ! i) k))
   \<and> (\<not> truthy_string (fb_email fbUser)
        \<longrightarrow> createNewUserData env fbUser ad db
            = batch_commit (commit_failure env) (server_time env) (staged_writes env fbUser ad) db)
   \<and> (\<forall>e. fst (batch_commit failure now batch db) = Inl e
        \<longrightarrow> snd (batch_commit failure now batch db) = db)
   \<and> (\<not> truthy_string (fb_email fbUser) \<and> commit_failure env = None
        \<and> inj_on (newDocId env) {..<length (defaultCircles env)}
        \<longrightarrow> (\<exists>db'. createNewUserData env fbUser ad db = (Inr (), db')
             \<and> db' (userDocRef fbUser) \<noteq> None
             \<and> (\<forall>i < length (defaultCircles env).
                  \<exists>d. db' (DocRef ''circles'' (newDocId env i)) = Some d
                    \<and> d ''ownerId'' = Some (VString (uid fbUser))
                    \<and> d ''memberIds'' = Some (VArray [VString (uid fbUser)]))))
   \<and> (fb_email fbUser = Some email \<and> email \<noteq> []
        \<and> processInvitesForNewUser env (staged_writes env fbUser ad) (uid fbUser) email db
            = (Inr batch', db1)
        \<longrightarrow> createNewUserData env fbUser ad db
            = batch_commit (commit_failure env) (server_time env) batch' db1)
   \<and> (fb_email fbUser = Some email \<and> email \<noteq> []
        \<and> processInvitesForNewUser env (staged_writes env fbUser ad) (uid fbUser) email db
            = (Inr (staged_writes env fbUser ad @ extra), db1)
        \<and> commit_failure env = None
        \<and> inj_on (newDocId env) {..<length (defaultCircles env)}
        \<and> (\<forall>w \<in> set extra. \<forall>i < length (defaultCircles env).
               op_ref w \<noteq> DocRef ''circles'' (newDocId env i))
        \<and> apply_batch (server_time env) db1 (staged_writes env fbUser ad @ extra) = Some db2
        \<longrightarrow> createNewUserData env fbUser ad db = (Inr (), db2)
           \<and> db2 (userDocRef fbUser) \<noteq> None
           \<and> (\<forall>i < length (defaultCircles env).
                \<exists>d. db2 (DocRef ''circles'' (newDocId env i)) = Some d
                  \<and> d ''ownerId'' = Some (VString (uid fbUser))
                  \<and> d ''memberIds'' = Some (VArray [VString (uid fbUser)])))"
proof -
  have circles: "\<forall>i < length (defaultCircles env).
        \<exists>d. staged_writes env fbUser ad ! Suc i = SetOp (DocRef ''circles'' (newDocId env i)) d False
          \<and> d ''ownerId'' = Some (VString (uid fbUser))
          \<and> d ''memberIds'' = Some (VArray [VString (uid fbUser)])
          \<and> (\<forall>k. k \<noteq> ''ownerId'' \<and> k \<noteq> ''memberIds'' \<longrightarrow> d k = (defaultCircles env ! i) k)"
    using staged_writes_circle dataWithOwner_ownerId dataWithOwner_memberIds dataWithOwner_rest
    by blast
  have atomic: "\<forall>e. fst (batch_commit failure now batch db) = Inl e
        \<longrightarrow> snd (batch_commit failure now batch db) = db"
    using batch_commit_all_or_nothing by blast
  have run: "\<not> truthy_string (fb_email fbUser) \<and> commit_failure env = None
        \<and> inj_on (newDocId env) {..<length (defaultCircles env)}
        \<longrightarrow> (\<exists>db'. createNewUserData env fbUser ad db = (Inr (), db')
             \<and> db' (userDocRef fbUser) \<noteq> None
             \<and> (\<forall>i < length (defaultCircles env).
                  \<exists>d. db' (DocRef ''circles'' (newDocId env i)) = Some d
                    \<and> d ''ownerId'' = Some (VString (uid fbUser))
                    \<and> d ''memberIds'' = Some (VArray [VString (uid fbUser)])))"
  proof (intro impI, elim conjE)
    assume noemail: "\<not> truthy_string (fb_email fbUser)" and ok: "commit_failure env = None"
      and inj: "inj_on (newDocId env) {..<length (defaultCircles env)}"
    obtain db' where run: "createNewUserData env fbUser ad db = (Inr (), db')"
      and app: "apply_batch (server_time env) db (staged_writes env fbUser ad) = Some db'"
      using createNewUserData_commits [OF noemail ok] by blast
    have "''stripeId'' \<notin> fst ` set (newUser fbUser ad)" by (simp add: newUser_keys)
    from user_write_frame [OF this app] have user: "db' (userDocRef fbUser) \<noteq> None" by auto
    have "\<exists>d. db' (DocRef ''circles'' (newDocId env i)) = Some d
                    \<and> d ''ownerId'' = Some (VString (uid fbUser))
                    \<and> d ''memberIds'' = Some (VArray [VString (uid fbUser)])"
      if "i < length (defaultCircles env)" for i
      using circle_written [OF app inj that] resolved_ownerId resolved_memberIds
      by simp
    with run user show "\<exists>db'. createNewUserData env fbUser ad db = (Inr (), db')
             \<and> db' (userDocRef fbUser) \<noteq> None
             \<and> (\<forall>i < length (defaultCircles env).
                  \<exists>d. db' (DocRef ''circles'' (newDocId env i)) = Some d
                    \<and> d ''ownerId'' = Some (VString (uid fbUser))
                    \<and> d ''memberIds'' = Some (VArray [VString (uid fbUser)]))"
      by blast
  qed
  have handed: "fb_email fbUser = Some email \<and> email \<noteq> []
        \<and> processInvitesForNewUser env (staged_writes env fbUser ad) (uid fbUser) email db
            = (Inr batch', db1)
        \<longrightarrow> createNewUserData env fbUser ad db
            = batch_commit (commit_failure env) (server_time env) batch' db1"
    by (simp add: createNewUserData_with_email)
  have email_run: "fb_email fbUser = Some email \<and> email \<noteq> []
        \<and> processInvitesForNewUser env (staged_writes env fbUser ad) (uid fbUser) email db
            = (Inr (staged_writes env fbUser ad @ extra), db1)
        \<and> commit_failure env = None
        \<and> inj_on (newDocId env) {..<length (defaultCircles env)}
        \<and> (\<forall>w \<in> set extra. \<forall>i < length (defaultCircles env).
               op_ref w \<noteq> DocRef ''circles'' (newDocId env i))
        \<and> apply_batch (server_time env) db1 (staged_writes env fbUser ad @ extra) = Some db2
        \<longrightarrow> createNewUserData env fbUser ad db = (Inr (), db2)
           \<and> db2 (userDocRef fbUser) \<noteq> None
           \<and> (\<forall>i < length (defaultCircles env).
                \<exists>d. db2 (DocRef ''circles'' (newDocId env i)) = Some d
                  \<and> d ''ownerId'' = Some (VString (uid fbUser))
                  \<and> d ''memberIds'' = Some (VArray [VString (uid fbUser)]))"
    by (intro impI, elim conjE) (rule email_run_circles)
  have noemail_eq: "\<not> truthy_string (fb_email fbUser)
        \<longrightarrow> createNewUserData env fbUser ad db
            = batch_commit (commit_failure env) (server_time env) (staged_writes env fbUser ad) db"
    using createNewUserData_without_email [of fbUser env ad db] by blast
  show ?thesis
    by (intro conjI) (fact staged_writes_length staged_writes_user circles noemail_eq atomic
        run handed email_run)+
qed

lemma ex_env_newDocId_inj: "inj_on (newDocId ex_env) A"
  by (auto simp: inj_on_def ex_env_def dest: arg_cong [where f = length])

theorem C6_default_circles_in_batch_witness:
  "length (defaultCircles ex_env) = 4
   \<and> length (staged_writes ex_env ex_fbUser ex_additional) = 5
   \<and> fb_email ex_fbUser = Some ''a@x.com''
   \<and> (\<exists>db'. createNewUserData ex_env ex_fbUser ex_additional ex_db = (Inr (), db')
        \<and> db' (userDocRef ex_fbUser) \<noteq> None
        \<and> (\<exists>d. db' (DocRef ''circles'' ''c'') = Some d
              \<and> d ''ownerId'' = Some (VString ''u1'')
              \<and> d ''memberIds'' = Some (VArray [VString ''u1'']))
        \<and> (\<exists>d. db' (DocRef ''circles'' ''cc'') = Some d
              \<and> d ''ownerId'' = Some (VString ''u1'')
              \<and> d ''memberIds'' = Some (VArray [VString ''u1'']))
        \<and> (\<exists>d. db' (DocRef ''circles'' ''ccc'') = Some d
              \<and> d ''ownerId'' = Some (VString ''u1'')
              \<and> d ''memberIds'' = Some (VArray [VString ''u1'']))
        \<and> (\<exists>d. db' (DocRef ''circles'' ''cccc'') = Some d
              \<and> d ''ownerId'' = Some (VString ''u1'')
              \<and> d ''memberIds'' = Some (VArray [VString ''u1'']))
        \<and> (\<exists>inv. db' (DocRef ''invites'' ''inv1'') = Some inv
              \<and> inv ''toUserId'' = Some (VString ''u1'')))
   \<and> (\<exists>db'. createNewUserData ex_env ex_fbUser_no_email ex_additional ex_db = (Inr (), db')
        \<and> db' (userDocRef ex_fbUser_no_email) \<noteq> None
        \<and> (\<exists>d. db' (DocRef ''circles'' ''c'') = Some d
              \<and> d ''ownerId'' = Some (VString ''u1'')
              \<and> d ''memberIds'' = Some (VArray [VString ''u1'']))
        \<and> (\<exists>d. db' (DocRef ''circles'' ''cccc'') = Some d
              \<and> d ''ownerId'' = Some (VString ''u1'')
              \<and> d ''memberIds'' = Some (VArray [VString ''u1''])))"
proof -
  have ids: "newDocId ex_env 0 = ''c''" "newDocId ex_env (Suc 0) = ''cc''"
    "newDocId ex_env 2 = ''ccc''" "newDocId ex_env 3 = ''cccc''"
    by (simp_all add: ex_env_def eval_nat_numeral)
  have len: "length (defaultCircles ex_env) = 4"
    by (simp add: ex_env_def defaultCircles_spec_def)
  have inj: "inj_on (newDocId ex_env) {..<length (defaultCircles ex_env)}"
    by (rule ex_env_newDocId_inj)
  have commit: "commit_failure ex_env = None"
    by (simp add: ex_env_def)

  \<comment> \<open>the identity with an e-mail and one pending invite\<close>
  let ?extra = "[UpdateOp (DocRef ''invites'' ''inv1'') [''toUserId'' \<mapsto> VString ''u1'']]"
  have email: "fb_email ex_fbUser = Some ''a@x.com''" "''a@x.com'' \<noteq> []" "uid ex_fbUser = ''u1''"
    by (simp_all add: ex_fbUser_def)
  have helper: "processInvitesForNewUser ex_env (staged_writes ex_env ex_fbUser ex_additional)
                  (uid ex_fbUser) ''a@x.com'' ex_db
                = (Inr (staged_writes ex_env ex_fbUser ex_additional @ ?extra), ex_db)"
    by (simp add: ex_env_def ex_stage_invite_update_def ex_fbUser_def)
  have aimed: "\<forall>w \<in> set ?extra. \<forall>i < length (defaultCircles ex_env).
                  op_ref w \<noteq> DocRef ''circles'' (newDocId ex_env i)"
    by simp
  have "ex_db (DocRef ''invites'' ''inv1'') \<noteq> None"
    by (simp add: ex_db_def)
  with staged_then_invite_update [where db = ex_db and i = "''inv1''"
      and now = "server_time ex_env" and env = ex_env and fbUser = ex_fbUser
      and ad = ex_additional and x = "''u1''"]
  obtain db2 where applied:
    "apply_batch (server_time ex_env) ex_db (staged_writes ex_env ex_fbUser ex_additional @ ?extra) = Some db2"
    and invite: "\<exists>inv. db2 (DocRef ''invites'' ''inv1'') = Some inv \<and> inv ''toUserId'' = Some (VString ''u1'')"
    by blast
  note c6e = C6_default_circles_in_batch [where env = ex_env and fbUser = ex_fbUser
      and ad = ex_additional and db = ex_db and email = "''a@x.com''" and extra = ?extra
      and ?db1.0 = ex_db and ?db2.0 = db2 and failure = None and now = 0 and batch = "[]"
      and batch' = "staged_writes ex_env ex_fbUser ex_additional @ ?extra"]
  have staged: "length (staged_writes ex_env ex_fbUser ex_additional)
                   = Suc (length (defaultCircles ex_env))"
    using c6e by (elim conjE) assumption
  have "createNewUserData ex_env ex_fbUser ex_additional ex_db = (Inr (), db2)
           \<and> db2 (userDocRef ex_fbUser) \<noteq> None
           \<and> (\<forall>i < length (defaultCircles ex_env).
                \<exists>d. db2 (DocRef ''circles'' (newDocId ex_env i)) = Some d
                  \<and> d ''ownerId'' = Some (VString (uid ex_fbUser))
                  \<and> d ''memberIds'' = Some (VArray [VString (uid ex_fbUser)]))"
    using c6e email(1,2) helper commit inj aimed applied by blast
  then have run2: "createNewUserData ex_env ex_fbUser ex_additional ex_db = (Inr (), db2)"
      "db2 (userDocRef ex_fbUser) \<noteq> None"
      and all2: "\<forall>i < length (defaultCircles ex_env).
                \<exists>d. db2 (DocRef ''circles'' (newDocId ex_env i)) = Some d
                  \<and> d ''ownerId'' = Some (VString (uid ex_fbUser))
                  \<and> d ''memberIds'' = Some (VArray [VString (uid ex_fbUser)])"
    by blast+
  have circ2: "\<exists>d. db2 (DocRef ''circles'' (newDocId ex_env i)) = Some d
            \<and> d ''ownerId'' = Some (VString ''u1'')
            \<and> d ''memberIds'' = Some (VArray [VString ''u1''])" if "i < 4" for i
    using all2 that email(3) len by simp
  from circ2 [of 0] circ2 [of "Suc 0"] circ2 [of 2] circ2 [of 3] run2 invite
  have with_email: "\<exists>db'. createNewUserData ex_env ex_fbUser ex_additional ex_db = (Inr (), db')
        \<and> db' (userDocRef ex_fbUser) \<noteq> None
        \<and> (\<exists>d. db' (DocRef ''circles'' ''c'') = Some d
              \<and> d ''ownerId'' = Some (VString ''u1'')
              \<and> d ''memberIds'' = Some (VArray [VString ''u1'']))
        \<and> (\<exists>d. db' (DocRef ''circles'' ''cc'') = Some d
              \<and> d ''ownerId'' = Some (VString ''u1'')
              \<and> d ''memberIds'' = Some (VArray [VString ''u1'']))
        \<and> (\<exists>d. db' (DocRef ''circles'' ''ccc'') = Some d
              \<and> d ''ownerId'' = Some (VString ''u1'')
              \<and> d ''memberIds'' = Some (VArray [VString ''u1'']))
        \<and> (\<exists>d. db' (DocRef ''circles'' ''cccc'') = Some d
              \<and> d ''ownerId'' = Some (VString ''u1'')
              \<and> d ''memberIds'' = Some (VArray [VString ''u1'']))
        \<and> (\<exists>inv. db' (DocRef ''invites'' ''inv1'') = Some inv
              \<and> inv ''toUserId'' = Some (VString ''u1''))"
    by (simp add: ids)

  \<comment> \<open>the identity without e-mail\<close>
  have pre: "\<not> truthy_string (fb_email ex_fbUser_no_email)" "uid ex_fbUser_no_email = ''u1''"
    by (simp_all add: truthy_string_def ex_fbUser_no_email_def)
  note c6 = C6_default_circles_in_batch [where env = ex_env and fbUser = ex_fbUser_no_email
      and ad = ex_additional and db = ex_db and email = "[]" and extra = "[]"
      and ?db1.0 = ex_db and ?db2.0 = ex_db and failure = None and now = 0 and batch = "[]"
      and batch' = "[]"]
  have run: "\<not> truthy_string (fb_email ex_fbUser_no_email) \<and> commit_failure ex_env = None
        \<and> inj_on (newDocId ex_env) {..<length (defaultCircles ex_env)}
        \<longrightarrow> (\<exists>db'. createNewUserData ex_env ex_fbUser_no_email ex_additional ex_db = (Inr (), db')
             \<and> db' (userDocRef ex_fbUser_no_email) \<noteq> None
             \<and> (\<forall>i < length (defaultCircles ex_env).
                  \<exists>d. db' (DocRef ''circles'' (newDocId ex_env i)) = Some d
                    \<and> d ''ownerId'' = Some (VString (uid ex_fbUser_no_email))
                    \<and> d ''memberIds'' = Some (VArray [VString (uid ex_fbUser_no_email)])))"
    using c6 by (elim conjE) assumption
  from run pre(1) commit inj
  obtain db' where db': "createNewUserData ex_env ex_fbUser_no_email ex_additional ex_db = (Inr (), db')"
      "db' (userDocRef ex_fbUser_no_email) \<noteq> None"
      "\<forall>i < length (defaultCircles ex_env).
          \<exists>d. db' (DocRef ''circles'' (newDocId ex_env i)) = Some d
            \<and> d ''ownerId'' = Some (VString (uid ex_fbUser_no_email))
            \<and> d ''memberIds'' = Some (VArray [VString (uid ex_fbUser_no_email)])"
    by blast
  have "\<exists>d. db' (DocRef ''circles'' (newDocId ex_env i)) = Some d
            \<and> d ''ownerId'' = Some (VString ''u1'')
            \<and> d ''memberIds'' = Some (VArray [VString ''u1''])" if "i < 4" for i
    using db'(3) that pre(2) len by simp
  from this [of 0] this [of 3] db'(1,2)
  have without_email: "\<exists>db'. createNewUserData ex_env ex_fbUser_no_email ex_additional ex_db = (Inr (), db')
        \<and> db' (userDocRef ex_fbUser_no_email) \<noteq> None
        \<and> (\<exists>d. db' (DocRef ''circles'' ''c'') = Some d
              \<and> d ''ownerId'' = Some (VString ''u1'')
              \<and> d ''memberIds'' = Some (VArray [VString ''u1'']))
        \<and> (\<exists>d. db' (DocRef ''circles'' ''cccc'') = Some d
              \<and> d ''ownerId'' = Some (VString ''u1'')
              \<and> d ''memberIds'' = Some (VArray [VString ''u1'']))"
    by (simp add: ids)
  show ?thesis
    using len staged email(1) with_email without_email by simp
qed

text \<open>
  C7, as stated, fails: when the invite-processing step rejects, the run ends with that
  error before the commit, and neither the user document nor any circle document is
  written.
\<close>

theorem C7_counterexample:
  "fst (processInvitesForNewUser ex_env_invites_unavailable
          (staged_writes ex_env_invites_unavailable ex_fbUser ex_additional)
          (uid ex_fbUser) ''a@x.com'' ex_db) = Inl (StoreError ''unavailable'')
   \<and> createNewUserData ex_env_invites_unavailable ex_fbUser ex_additional ex_db
       = (Inl (StoreError ''unavailable''), ex_db)
   \<and> ex_db (userDocRef ex_fbUser) = None
   \<and> ex_db (DocRef ''circles'' (newDocId ex_env_invites_unavailable 0)) = None"
  by (simp add: createNewUserData_def Let_def ex_provisioning_defs userDocRef_def)

text \<open>
  C7 (amended): when the new user has an e-mail, the invite processing is a separate
  awaited call that is handed the batch with the user and circle writes already staged and
  that completes before the commit. If it rejects, the run ends with its error and the
  database is the one the call left: the batch is never committed. If it resolves, the
  batch it hands back is committed, all-or-nothing, on the database the call left.
\<close>

theorem C7_invite_processing_before_commit:
  assumes "fb_email fbUser = Some email" and "email \<noteq> []"
  shows "(\<forall>e db1. processInvitesForNewUser env (staged_writes env fbUser ad) (uid fbUser) email db
                     = (Inl e, db1)
            \<longrightarrow> createNewUserData env fbUser ad db = (Inl e, db1))
       \<and> (\<forall>batch' db1. processInvitesForNewUser env (staged_writes env fbUser ad) (uid fbUser) email db
                     = (Inr batch', db1)
            \<longrightarrow> createNewUserData env fbUser ad db
                = batch_commit (commit_failure env) (server_time env) batch' db1)"
  using createNewUserData_with_email [OF assms, of env ad db] by simp

theorem C7_invite_processing_before_commit_witness:
  "fb_email ex_fbUser = Some ''a@x.com''
   \<and> createNewUserData ex_env_invites_unavailable ex_fbUser ex_additional ex_db
       = (Inl (StoreError ''unavailable''), ex_db)
   \<and> createNewUserData ex_env ex_fbUser ex_additional ex_db
       = batch_commit None 1000
           (staged_writes ex_env ex_fbUser ex_additional
              @ [UpdateOp (DocRef ''invites'' ''inv1'') [''toUserId'' \<mapsto> VString ''u1'']])
           ex_db"
proof -
  have email: "fb_email ex_fbUser = Some ''a@x.com''" "''a@x.com'' \<noteq> []"
    by (simp_all add: ex_fbUser_def)
  have "createNewUserData ex_env_invites_unavailable ex_fbUser ex_additional ex_db
       = (Inl (StoreError ''unavailable''), ex_db)"
    using C7_invite_processing_before_commit [OF email, of ex_env_invites_unavailable ex_additional ex_db]
    by (simp add: ex_env_invites_unavailable_def ex_invites_unavailable_def)
  moreover have "createNewUserData ex_env ex_fbUser ex_additional ex_db
       = batch_commit None 1000
           (staged_writes ex_env ex_fbUser ex_additional
              @ [UpdateOp (DocRef ''invites'' ''inv1'') [''toUserId'' \<mapsto> VString ''u1'']])
           ex_db"
    using C7_invite_processing_before_commit [OF email, of ex_env ex_additional ex_db]
    by (simp add: ex_env_def ex_stage_invite_update_def ex_fbUser_def)
  ultimately show ?thesis using email by simp
qed

section \<open>Circle detail page: results\<close>

text \<open>
  C8: with no trait selected, \<^verbatim>\<open>handleSend\<close> calls nothing and returns the dialog state
  and the outside world as they were; with a trait selected, \<^verbatim>\<open>onSend\<close> is called once,
  with that trait. Once a trait T has been chosen, a send through the specification's
  \<^verbatim>\<open>sendFamilyGoal\<close> adds a FamilyGoal with status pending and trait T and closes the dialog.
\<close>

theorem C8_send_needs_trait:
  "(selectedTrait d = [] \<longrightarrow> handleSend onSend d w = ([], Inr (), d, w))
   \<and> (selectedTrait d \<noteq> [] \<longrightarrow> fst (handleSend onSend d w) = [selectedTrait d])
   \<and> (T \<noteq> [] \<longrightarrow>
        handleSend (sendFamilyGoal_spec newId fromId toId) (setSelectedTrait T d) goals
          = ([T], Inr (), \<lparr>isOpen = False, selectedTrait = T, isSubmitting = False\<rparr>,
             goals @ [\<lparr>goal_id = newId, goal_fromUserId = fromId, goal_toUserId = toId,
                       goal_trait = T, goal_status = GoalPending\<rparr>]))"
proof -
  have a: "selectedTrait d = [] \<longrightarrow> handleSend onSend d w = ([], Inr (), d, w)"
    by (simp add: handleSend_def)
  have b: "selectedTrait d \<noteq> [] \<longrightarrow> fst (handleSend onSend d w) = [selectedTrait d]"
    by (simp add: handleSend_def Let_def split: prod.splits sum.splits)
  have c: "T \<noteq> [] \<longrightarrow>
        handleSend (sendFamilyGoal_spec newId fromId toId) (setSelectedTrait T d) goals
          = ([T], Inr (), \<lparr>isOpen = False, selectedTrait = T, isSubmitting = False\<rparr>,
             goals @ [\<lparr>goal_id = newId, goal_fromUserId = fromId, goal_toUserId = toId,
                       goal_trait = T, goal_status = GoalPending\<rparr>])"
    by (simp add: handleSend_def Let_def sendFamilyGoal_spec_def setSelectedTrait_def)
  show ?thesis using a b c by blast
qed

theorem C8_send_needs_trait_witness:
  "handleSend (sendFamilyGoal_spec ''g9'' ''p'' ''m'') ex_dialog ex_familyGoals
     = ([], Inr (), \<lparr>isOpen = True, selectedTrait = [], isSubmitting = False\<rparr>, ex_familyGoals)
   \<and> handleSend (sendFamilyGoal_spec ''g9'' ''p'' ''m'') (setSelectedTrait ''Patience'' ex_dialog)
       ex_familyGoals
     = ([''Patience''], Inr (), \<lparr>isOpen = False, selectedTrait = ''Patience'', isSubmitting = False\<rparr>,
        ex_familyGoals @ [\<lparr>goal_id = ''g9'', goal_fromUserId = ''p'', goal_toUserId = ''m'',
                           goal_trait = ''Patience'', goal_status = GoalPending\<rparr>])"
  using C8_send_needs_trait [of ex_dialog "sendFamilyGoal_spec ''g9'' ''p'' ''m''" ex_familyGoals
      "''Patience''" "''g9''" "''p''" "''m''" ex_familyGoals]
  by (simp add: ex_dialog_def)

text \<open>
  C9: in a member row rendered for a current user who is not the circle's owner, no control
  is a Remove button and no control, when activated, calls \<^verbatim>\<open>onRemove\<close>.
\<close>

theorem C9_remove_is_owner_only:
  assumes "circle_ownerId circle \<noteq> currentUserId"
  shows "\<forall>c \<in> set (MemberListItem member circle currentUserId currentUser lastRatedAt).
           (\<forall>m. c \<noteq> RemoveButton m) \<and> (\<forall>m. activate c \<noteq> Some (OnRemove m))"
  using assms by (auto simp: MemberListItem_def Let_def)

theorem C9_remove_is_owner_only_witness:
  "circle_ownerId (ex_circle Friends) \<noteq> ''z''
   \<and> MemberListItem ex_member (ex_circle Friends) ''z'' (Some ex_free_user) None
       = [RateLink ''Rate'' ''/evaluate/c1/m'']
   \<and> RemoveButton ex_member
       \<notin> set (MemberListItem ex_member (ex_circle Friends) ''z'' (Some ex_free_user) None)
   \<and> RemoveButton ex_member
       \<in> set (MemberListItem ex_member (ex_circle Friends) ''p'' (Some ex_premium_user) None)"
proof -
  have owner: "circle_ownerId (ex_circle Friends) \<noteq> ''z''"
    by (simp add: ex_circle_def)
  have row: "MemberListItem ex_member (ex_circle Friends) ''z'' (Some ex_free_user) None
       = [RateLink ''Rate'' ''/evaluate/c1/m'']"
    by (simp add: MemberListItem_def Let_def ex_circle_def ex_member_def)
  have own: "RemoveButton ex_member
       \<in> set (MemberListItem ex_member (ex_circle Friends) ''p'' (Some ex_premium_user) None)"
    by (simp add: MemberListItem_def Let_def ex_circle_def ex_member_def)
  have "RemoveButton ex_member
       \<notin> set (MemberListItem ex_member (ex_circle Friends) ''z'' (Some ex_free_user) None)"
    using C9_remove_is_owner_only [OF owner, of ex_member "Some ex_free_user" None] by blast
  then show ?thesis using owner row own by simp
qed

text \<open>
  C10: the row of the member who is the current user has no controls at all: no Rate or
  Re-rate link, no Suggest Goal button and no Remove button, also when that user owns the
  circle.
\<close>

theorem C10_own_row_has_no_controls:
  assumes "user_id member = currentUserId"
  shows "MemberListItem member circle currentUserId currentUser lastRatedAt = []"
  using assms by (simp add: MemberListItem_def)

theorem C10_own_row_has_no_controls_witness:
  "user_id ex_premium_user = circle_ownerId (ex_circle Family)
   \<and> MemberListItem ex_premium_user (ex_circle Family) ''p'' (Some ex_premium_user) (Some 7) = []
   \<and> MemberListItem ex_premium_user (ex_circle Work) ''p'' (Some ex_premium_user) None = []"
proof -
  have me: "user_id ex_premium_user = ''p''"
    by (simp add: ex_premium_user_def)
  show ?thesis
    using C10_own_row_has_no_controls [OF me, of "ex_circle Family" "Some ex_premium_user" "Some 7"]
      C10_own_row_has_no_controls [OF me, of "ex_circle Work" "Some ex_premium_user" None] me
    by (simp add: ex_circle_def)
qed

end
